theory Spec2Isabelle
  imports Main
begin

section \<open>Objects, memory and faults\<close>

text \<open>
  The node writer of the machine-config daemon (\<^verbatim>\<open>pkg/daemon/writer.go\<close>) works on
  pointers to \<^verbatim>\<open>v1.Node\<close> objects that it shares with the lister's cache, and the
  annotations of a node are a Go map, that is a reference. Both are kept in an explicit
  memory: a pointer is an index into the list of allocated node structs, a map reference an
  index into the list of allocated map objects; allocation appends. Only the fields of a
  node that the writer reads or writes are kept.
\<close>

type_synonym addr = nat

record Node =
  Name :: string
  ResourceVersion :: string
  Annotations :: "addr option"  \<comment> \<open>\<open>None\<close> is the nil map\<close>

record heap =
  nodes :: "Node list"
  maps :: "(string \<rightharpoonup> string) list"

text \<open>
  What a reader that follows the pointers sees of a node, which is what
  \<^verbatim>\<open>json.Marshal\<close> serialises.
\<close>

record NodeValue =
  vName :: string
  vResourceVersion :: string
  vAnnotations :: "(string \<rightharpoonup> string) option"

definition load :: "heap \<Rightarrow> addr \<Rightarrow> NodeValue option" where
  "load h p =
     (if p < length (nodes h) then
        (case Annotations (nodes h ! p) of
           None \<Rightarrow>
             Some \<lparr>vName = Name (nodes h ! p),
                   vResourceVersion = ResourceVersion (nodes h ! p),
                   vAnnotations = None\<rparr>
         | Some a \<Rightarrow>
             if a < length (maps h) then
               Some \<lparr>vName = Name (nodes h ! p),
                     vResourceVersion = ResourceVersion (nodes h ! p),
                     vAnnotations = Some (maps h ! a)\<rparr>
             else None)
      else None)"

text \<open>
  A Go panic is not an error value: it unwinds the calling goroutine, and nothing in
  \<^verbatim>\<open>writer.go\<close> recovers from it. Every operation that can panic returns an
  \<open>exec\<close>. Go has no dangling pointers, and a lister that reports no error hands out
  a pointer to an object: an index outside the memory is a pointer that the program cannot
  hold, and the model stops with \<open>InvalidMemoryAddress\<close> where one would be read.
\<close>

datatype panic = NilMapAssignment | InvalidMemoryAddress

datatype 'a exec = Panicked panic | Returned 'a

text \<open>
  Error values. \<^verbatim>\<open>errors.IsConflict\<close> recognises the API status errors whose reason
  is Conflict; the two errors that \<^verbatim>\<open>updateNodeRetry\<close> builds with
  \<^verbatim>\<open>fmt.Errorf\<close> keep the arguments of their format string. An \<^verbatim>\<open>error\<close>
  interface value is a \<open>go_error option\<close>, \<open>None\<close> being nil.
\<close>

datatype go_error =
    StatusConflict string
  | OtherError string
  | FailedToCreatePatch string go_error
      \<comment> \<open>\<^verbatim>\<open>fmt.Errorf("failed to create patch for node %q: %v", nodeName, err)\<close>\<close>
  | UnableToUpdateNode "NodeValue option" go_error
      \<comment> \<open>\<^verbatim>\<open>fmt.Errorf("unable to update node %q: %v", node, err)\<close>\<close>

fun IsConflict :: "go_error \<Rightarrow> bool" where
  "IsConflict (StatusConflict msg) = True"
| "IsConflict err = False"

section \<open>Constants\<close>

definition defaultWriterQueue :: nat where
  "defaultWriterQueue = 25"

definition machineConfigDaemonSSHAccessAnnotationKey :: string where
  "machineConfigDaemonSSHAccessAnnotationKey = ''machineconfiguration.openshift.io/ssh''"

definition machineConfigDaemonSSHAccessValue :: string where
  "machineConfigDaemonSSHAccessValue = ''accessed''"

definition MachineConfigDaemonStateAnnotationKey :: string where
  \<comment> \<open>Modelled from the spec: package \<^verbatim>\<open>pkg/daemon/constants\<close> is not among the
      sources; the spec names the annotation key "state".\<close>
  "MachineConfigDaemonStateAnnotationKey = ''state''"

definition CurrentMachineConfigAnnotationKey :: string where
  \<comment> \<open>Modelled from the spec: package \<^verbatim>\<open>pkg/daemon/constants\<close> is not among the
      sources; the spec names the annotation key "current-config".\<close>
  "CurrentMachineConfigAnnotationKey = ''current-config''"

definition MachineConfigDaemonStateDone :: string where
  \<comment> \<open>Modelled from the spec: package \<^verbatim>\<open>pkg/daemon/constants\<close> is not among the
      sources; the spec writes status=Done.\<close>
  "MachineConfigDaemonStateDone = ''Done''"

definition MachineConfigDaemonStateWorking :: string where
  \<comment> \<open>Modelled from the spec: package \<^verbatim>\<open>pkg/daemon/constants\<close> is not among the
      sources; the spec writes status=Working.\<close>
  "MachineConfigDaemonStateWorking = ''Working''"

definition MachineConfigDaemonStateUnreconcilable :: string where
  \<comment> \<open>Modelled from the spec: package \<^verbatim>\<open>pkg/daemon/constants\<close> is not among the
      sources; the spec writes status=Unreconcilable.\<close>
  "MachineConfigDaemonStateUnreconcilable = ''Unreconcilable''"

definition MachineConfigDaemonStateDegraded :: string where
  \<comment> \<open>Modelled from the spec: package \<^verbatim>\<open>pkg/daemon/constants\<close> is not among the
      sources; the spec writes status=Degraded.\<close>
  "MachineConfigDaemonStateDegraded = ''Degraded''"

section \<open>The mutation of \<^verbatim>\<open>setNodeAnnotations\<close>\<close>

text \<open>
  The function literal that \<^verbatim>\<open>setNodeAnnotations\<close> hands to
  \<^verbatim>\<open>updateNodeRetry\<close>:
  \<^verbatim>\<open>for k, v := range m { node.Annotations[k] = v }\<close>.
  The map \<open>m\<close> is given by its entries in the order in which \<^verbatim>\<open>range\<close> visits
  them. An assignment to an entry of a nil map panics; with no entry to visit the loop body
  never runs.
\<close>

fun setNodeAnnotations_func :: "(string \<times> string) list \<Rightarrow> addr \<Rightarrow> heap \<Rightarrow> heap exec" where
  "setNodeAnnotations_func [] node h = Returned h"
| "setNodeAnnotations_func ((k, v) # m) node h =
     (if node < length (nodes h) then
        (case Annotations (nodes h ! node) of
           None \<Rightarrow> Panicked NilMapAssignment
         | Some a \<Rightarrow>
             if a < length (maps h) then
               setNodeAnnotations_func m node
                 (h\<lparr>maps := (maps h)[a := (maps h ! a)(k \<mapsto> v)]\<rparr>)
             else Panicked InvalidMemoryAddress)
      else Panicked InvalidMemoryAddress)"

text \<open>The entries written one after the other into a map value.\<close>

fun assign_all :: "(string \<times> string) list \<Rightarrow> (string \<rightharpoonup> string) \<Rightarrow> (string \<rightharpoonup> string)" where
  "assign_all [] a = a"
| "assign_all ((k, v) # m) a = assign_all m (a(k \<mapsto> v))"

section \<open>The collaborators\<close>

text \<open>
  The lister, the client, \<^verbatim>\<open>json.Marshal\<close> and
  \<^verbatim>\<open>strategicpatch.CreateTwoWayMergePatch\<close> are not part of the repository: they
  are parameters. The type \<open>'b\<close> is that of serialised objects, \<open>'p\<close> that of patches,
  \<open>'x\<close> the state of everything outside the process (the API server, the informer that
  fills the lister's cache). The lister and the client may change that state and the memory
  (the cache is refreshed behind the writer's back, the client allocates the object it
  returns); the two library functions only compute.
\<close>

record 'x world =
  mem :: heap
  ext :: 'x

type_synonym 'x NodeLister = "string \<Rightarrow> 'x world \<Rightarrow> (go_error + addr) \<times> 'x world"

type_synonym ('p, 'x) NodeInterface =
  "string \<Rightarrow> 'p \<Rightarrow> 'x world \<Rightarrow> (addr option \<times> go_error option) \<times> 'x world"

record ('b, 'p) libs =
  json_Marshal :: "NodeValue \<Rightarrow> go_error + 'b"
  CreateTwoWayMergePatch :: "'b \<Rightarrow> 'b \<Rightarrow> go_error + 'p"
  DefaultBackoff_Steps :: nat

definition DeepCopy :: "heap \<Rightarrow> addr \<Rightarrow> (addr \<times> heap) exec" where
  \<comment> \<open>Modelled from the spec: the generated \<^verbatim>\<open>(*v1.Node).DeepCopy\<close> is not among
      the sources; the spec says "Clone the snapshot". The clone is a newly allocated struct;
      a non-nil annotation map is copied into a newly allocated map, a nil one stays nil.\<close>
  "DeepCopy h p =
     (if p < length (nodes h) then
        (case Annotations (nodes h ! p) of
           None \<Rightarrow> Returned (length (nodes h), h\<lparr>nodes := nodes h @ [nodes h ! p]\<rparr>)
         | Some a \<Rightarrow>
             if a < length (maps h) then
               Returned (length (nodes h),
                 h\<lparr>nodes := nodes h @ [(nodes h ! p)\<lparr>Annotations := Some (length (maps h))\<rparr>],
                   maps := maps h @ [maps h ! a]\<rparr>)
             else Panicked InvalidMemoryAddress)
      else Panicked InvalidMemoryAddress)"

fun RetryOnConflict_loop ::
  "nat \<Rightarrow> ('s \<Rightarrow> (go_error option \<times> 's) exec) \<Rightarrow> go_error option \<Rightarrow> 's \<Rightarrow> (go_error option \<times> 's) exec"
where
  \<comment> \<open>Modelled from the spec: \<^verbatim>\<open>retry.RetryOnConflict\<close> of client-go is not among
      the sources. The spec: a version-conflict error is retried "up to the backoff policy's
      attempt limit", "any other error is not retried and is returned immediately", and when
      the limit is exhausted the last conflict error is what comes back. The first argument
      counts the attempts that are left; the pauses between attempts are not modelled.\<close>
  "RetryOnConflict_loop 0 fn lastConflictErr s = Returned (lastConflictErr, s)"
| "RetryOnConflict_loop (Suc steps) fn lastConflictErr s =
     (case fn s of
        Panicked p \<Rightarrow> Panicked p
      | Returned (None, s') \<Rightarrow> Returned (None, s')
      | Returned (Some err, s') \<Rightarrow>
          if IsConflict err then RetryOnConflict_loop steps fn (Some err) s'
          else Returned (Some err, s'))"

definition RetryOnConflict ::
  "nat \<Rightarrow> ('s \<Rightarrow> (go_error option \<times> 's) exec) \<Rightarrow> 's \<Rightarrow> (go_error option \<times> 's) exec"
where
  \<comment> \<open>Modelled from the spec: \<^verbatim>\<open>retry.RetryOnConflict\<close> of client-go is not among
      the sources; no conflict has been seen when the first attempt starts.\<close>
  "RetryOnConflict steps fn s = RetryOnConflict_loop steps fn None s"

section \<open>\<^verbatim>\<open>updateNodeRetry\<close> and \<^verbatim>\<open>setNodeAnnotations\<close>\<close>

text \<open>
  Lines 166 to 182 of the function literal in \<^verbatim>\<open>updateNodeRetry\<close>, the part between
  the lister's answer and the call of the client: serialise the fetched object, copy it,
  apply \<open>f\<close> to the copy, serialise the copy, compute the patch. The result is the error
  the literal returns at that point or the patch, with the memory as the steps left it.
\<close>

definition updateNodeRetry_patch ::
  "('b, 'p) libs \<Rightarrow> string \<Rightarrow> (addr \<Rightarrow> heap \<Rightarrow> heap exec) \<Rightarrow> addr \<Rightarrow> heap
     \<Rightarrow> ((go_error + 'p) \<times> heap) exec"
where
  "updateNodeRetry_patch L nodeName f n h =
     (case load h n of
        None \<Rightarrow> Panicked InvalidMemoryAddress
      | Some nv \<Rightarrow>
          (case json_Marshal L nv of
             Inl err \<Rightarrow> Returned (Inl err, h)
           | Inr oldNode \<Rightarrow>
               (case DeepCopy h n of
                  Panicked p \<Rightarrow> Panicked p
                | Returned (nodeClone, h1) \<Rightarrow>
                    (case f nodeClone h1 of
                       Panicked p \<Rightarrow> Panicked p
                     | Returned h2 \<Rightarrow>
                         (case load h2 nodeClone of
                            None \<Rightarrow> Panicked InvalidMemoryAddress
                          | Some cv \<Rightarrow>
                              (case json_Marshal L cv of
                                 Inl err \<Rightarrow> Returned (Inl err, h2)
                               | Inr newNode \<Rightarrow>
                                   (case CreateTwoWayMergePatch L oldNode newNode of
                                      Inl err \<Rightarrow>
                                        Returned (Inl (FailedToCreatePatch nodeName err), h2)
                                    | Inr patchBytes \<Rightarrow> Returned (Inr patchBytes, h2))))))))"

text \<open>
  The function literal as a whole. Its state is the variable \<^verbatim>\<open>node\<close> of the
  enclosing function, which only the call of the client assigns, and the world.
\<close>

definition updateNodeRetry_func ::
  "('b, 'p) libs \<Rightarrow> ('p, 'x) NodeInterface \<Rightarrow> 'x NodeLister \<Rightarrow> string
     \<Rightarrow> (addr \<Rightarrow> heap \<Rightarrow> heap exec) \<Rightarrow> addr option \<times> 'x world
     \<Rightarrow> (go_error option \<times> addr option \<times> 'x world) exec"
where
  "updateNodeRetry_func L client lister nodeName f s =
     (case s of (node, w) \<Rightarrow>
        (case lister nodeName w of
           (Inl err, w1) \<Rightarrow> Returned (Some err, node, w1)
         | (Inr n, w1) \<Rightarrow>
             (case updateNodeRetry_patch L nodeName f n (mem w1) of
                Panicked p \<Rightarrow> Panicked p
              | Returned (Inl err, h) \<Rightarrow> Returned (Some err, node, w1\<lparr>mem := h\<rparr>)
              | Returned (Inr patchBytes, h) \<Rightarrow>
                  (case client nodeName patchBytes (w1\<lparr>mem := h\<rparr>) of
                     ((node', err), w2) \<Rightarrow> Returned (err, node', w2)))))"

text \<open>
  The argument of \<^verbatim>\<open>%q\<close> in the error of line 188 is the pointer \<^verbatim>\<open>node\<close>:
  what is printed is the object it points to, or nil.
\<close>

definition format_node :: "heap \<Rightarrow> addr option \<Rightarrow> NodeValue option" where
  "format_node h node = (case node of None \<Rightarrow> None | Some p \<Rightarrow> load h p)"

definition updateNodeRetry ::
  "('b, 'p) libs \<Rightarrow> ('p, 'x) NodeInterface \<Rightarrow> 'x NodeLister \<Rightarrow> string
     \<Rightarrow> (addr \<Rightarrow> heap \<Rightarrow> heap exec) \<Rightarrow> 'x world
     \<Rightarrow> ((addr option \<times> go_error option) \<times> 'x world) exec"
where
  "updateNodeRetry L client lister nodeName f w =
     (case RetryOnConflict (DefaultBackoff_Steps L)
             (updateNodeRetry_func L client lister nodeName f) (None, w) of
        Panicked p \<Rightarrow> Panicked p
      | Returned (Some err, node, w') \<Rightarrow>
          Returned ((None, Some (UnableToUpdateNode (format_node (mem w') node) err)), w')
      | Returned (None, node, w') \<Rightarrow> Returned ((node, None), w'))"

definition setNodeAnnotations ::
  "('b, 'p) libs \<Rightarrow> ('p, 'x) NodeInterface \<Rightarrow> 'x NodeLister \<Rightarrow> string
     \<Rightarrow> (string \<times> string) list \<Rightarrow> 'x world
     \<Rightarrow> ((addr option \<times> go_error option) \<times> 'x world) exec"
where
  "setNodeAnnotations L client lister nodeName m w =
     updateNodeRetry L client lister nodeName (setNodeAnnotations_func m) w"

section \<open>The writer: channels, \<^verbatim>\<open>Run\<close> and the \<^verbatim>\<open>Set\<close> operations\<close>

text \<open>
  A buffered channel is the list of the values it holds, oldest first. The response
  channels are numbered in the order in which \<^verbatim>\<open>make(chan error, 1)\<close> created them.
  The state of the process is the world, the buffer of \<^verbatim>\<open>nw.writer\<close>, the buffers of
  the response channels, and what has been written with \<^verbatim>\<open>glog.Errorf\<close>.
\<close>

record ('p, 'x) message =
  msg_client :: "('p, 'x) NodeInterface"
  msg_lister :: "'x NodeLister"
  msg_node :: string
  msg_annos :: "(string \<times> string) list"
  msg_responseChannel :: nat

datatype log_line =
    MarkingUnreconcilable "go_error option"
      \<comment> \<open>\<^verbatim>\<open>"Marking Unreconcilable due to: %v", err\<close>\<close>
  | MarkingDegraded "go_error option"
      \<comment> \<open>\<^verbatim>\<open>"Marking Degraded due to: %v", err\<close>\<close>
  | ErrorSettingUnreconcilable string go_error
      \<comment> \<open>\<^verbatim>\<open>"Error setting Unreconcilable annotation for node %s: %v", node, clientErr\<close>\<close>
  | ErrorSettingDegraded string go_error
      \<comment> \<open>\<^verbatim>\<open>"Error setting Degraded annotation for node %s: %v", node, clientErr\<close>\<close>

record ('p, 'x) process =
  world :: "'x world"
  writer :: "('p, 'x) message list"
  chans :: "go_error option list list"
  glog :: "log_line list"

definition make_chan :: "('p, 'x) process \<Rightarrow> nat \<times> ('p, 'x) process" where
  "make_chan s = (length (chans s), s\<lparr>chans := chans s @ [[]]\<rparr>)"

text \<open>
  A send on a channel whose buffer is full, and a receive from one whose buffer is empty,
  block: the result is \<open>None\<close>. The response channels have capacity 1, the writer channel
  has capacity \<open>defaultWriterQueue\<close>.
\<close>

definition chan_send :: "nat \<Rightarrow> go_error option \<Rightarrow> go_error option list list
    \<Rightarrow> go_error option list list option" where
  "chan_send c v cs =
     (if c < length cs \<and> length (cs ! c) < 1 then Some (cs[c := cs ! c @ [v]]) else None)"

definition chan_recv :: "nat \<Rightarrow> go_error option list list
    \<Rightarrow> (go_error option \<times> go_error option list list) option" where
  "chan_recv c cs =
     (if c < length cs then
        (case cs ! c of [] \<Rightarrow> None | v # rest \<Rightarrow> Some (v, cs[c := rest]))
      else None)"

definition writer_send :: "('p, 'x) message \<Rightarrow> ('p, 'x) process \<Rightarrow> ('p, 'x) process option" where
  "writer_send msg s =
     (if length (writer s) < defaultWriterQueue then Some (s\<lparr>writer := writer s @ [msg]\<rparr>)
      else None)"

text \<open>
  \<^verbatim>\<open>Run\<close> loops over a \<^verbatim>\<open>select\<close>. The list \<open>sched\<close> gives, iteration by
  iteration, the case that fires; when it is used up, or when the case of the writer
  channel is to fire and its buffer is empty, the goroutine is waiting in the
  \<^verbatim>\<open>select\<close>. A panic of the update ends the goroutine, and with it the process.
\<close>

datatype select_case = case_stop | case_writer

datatype run_status = Waiting | Stopped | Crashed panic | SendBlocked

fun Run :: "('b, 'p) libs \<Rightarrow> select_case list \<Rightarrow> ('p, 'x) process
    \<Rightarrow> run_status \<times> ('p, 'x) process" where
  "Run L [] s = (Waiting, s)"
| "Run L (case_stop # sched) s = (Stopped, s)"
| "Run L (case_writer # sched) s =
     (case writer s of
        [] \<Rightarrow> (Waiting, s)
      | msg # queued \<Rightarrow>
          (case setNodeAnnotations L (msg_client msg) (msg_lister msg) (msg_node msg)
                  (msg_annos msg) (world s) of
             Panicked p \<Rightarrow> (Crashed p, s\<lparr>writer := queued\<rparr>)
           | Returned ((node, err), w) \<Rightarrow>
               (case chan_send (msg_responseChannel msg) err (chans s) of
                  None \<Rightarrow> (SendBlocked, s\<lparr>world := w, writer := queued\<rparr>)
                | Some cs \<Rightarrow> Run L sched (s\<lparr>world := w, writer := queued, chans := cs\<rparr>))))"

text \<open>
  Every \<^verbatim>\<open>Set\<close> operation ends with the same three statements: make the response
  channel, send the message on \<^verbatim>\<open>nw.writer\<close>, receive from the response channel. The
  caller is blocked in the receive while the goroutine of \<^verbatim>\<open>Run\<close> takes the steps
  \<open>sched\<close>. The call is \<open>Blocked\<close> when the writer channel is full at the send (the
  caller is not followed further) or the caller is still blocked in the receive after those
  steps, \<open>Died\<close> when the process has panicked, and \<open>Completed\<close> with the value
  received.
\<close>

datatype 'a call = Blocked | Died panic | Completed 'a

definition send_and_receive ::
  "('b, 'p) libs \<Rightarrow> select_case list \<Rightarrow> ('p, 'x) NodeInterface \<Rightarrow> 'x NodeLister \<Rightarrow> string
     \<Rightarrow> (string \<times> string) list \<Rightarrow> ('p, 'x) process
     \<Rightarrow> (go_error option \<times> ('p, 'x) process) call"
where
  "send_and_receive L sched client lister node annos s =
     (case make_chan s of (respChan, s1) \<Rightarrow>
        (case writer_send \<lparr>msg_client = client, msg_lister = lister, msg_node = node,
                           msg_annos = annos, msg_responseChannel = respChan\<rparr> s1 of
           None \<Rightarrow> Blocked
         | Some s2 \<Rightarrow>
             (case Run L sched s2 of
                (Crashed p, s3) \<Rightarrow> Died p
              | (status, s3) \<Rightarrow>
                  (case chan_recv respChan (chans s3) of
                     None \<Rightarrow> Blocked
                   | Some (err, cs) \<Rightarrow> Completed (err, s3\<lparr>chans := cs\<rparr>)))))"

definition SetDone ::
  "('b, 'p) libs \<Rightarrow> select_case list \<Rightarrow> ('p, 'x) NodeInterface \<Rightarrow> 'x NodeLister \<Rightarrow> string
     \<Rightarrow> string \<Rightarrow> ('p, 'x) process \<Rightarrow> (go_error option \<times> ('p, 'x) process) call"
where
  "SetDone L sched client lister node dcAnnotation s =
     send_and_receive L sched client lister node
       [(MachineConfigDaemonStateAnnotationKey, MachineConfigDaemonStateDone),
        (CurrentMachineConfigAnnotationKey, dcAnnotation)] s"

definition SetWorking ::
  "('b, 'p) libs \<Rightarrow> select_case list \<Rightarrow> ('p, 'x) NodeInterface \<Rightarrow> 'x NodeLister \<Rightarrow> string
     \<Rightarrow> ('p, 'x) process \<Rightarrow> (go_error option \<times> ('p, 'x) process) call"
where
  "SetWorking L sched client lister node s =
     send_and_receive L sched client lister node
       [(MachineConfigDaemonStateAnnotationKey, MachineConfigDaemonStateWorking)] s"

definition SetUnreconcilable ::
  "('b, 'p) libs \<Rightarrow> select_case list \<Rightarrow> go_error option \<Rightarrow> ('p, 'x) NodeInterface
     \<Rightarrow> 'x NodeLister \<Rightarrow> string \<Rightarrow> ('p, 'x) process
     \<Rightarrow> (go_error option \<times> ('p, 'x) process) call"
where
  "SetUnreconcilable L sched err client lister node s =
     (case send_and_receive L sched client lister node
             [(MachineConfigDaemonStateAnnotationKey, MachineConfigDaemonStateUnreconcilable)]
             (s\<lparr>glog := glog s @ [MarkingUnreconcilable err]\<rparr>) of
        Blocked \<Rightarrow> Blocked
      | Died p \<Rightarrow> Died p
      | Completed (clientErr, s') \<Rightarrow>
          (case clientErr of
             None \<Rightarrow> Completed (clientErr, s')
           | Some e \<Rightarrow>
               Completed (clientErr,
                 s'\<lparr>glog := glog s' @ [ErrorSettingUnreconcilable node e]\<rparr>)))"

definition SetDegraded ::
  "('b, 'p) libs \<Rightarrow> select_case list \<Rightarrow> go_error option \<Rightarrow> ('p, 'x) NodeInterface
     \<Rightarrow> 'x NodeLister \<Rightarrow> string \<Rightarrow> ('p, 'x) process
     \<Rightarrow> (go_error option \<times> ('p, 'x) process) call"
where
  "SetDegraded L sched err client lister node s =
     (case send_and_receive L sched client lister node
             [(MachineConfigDaemonStateAnnotationKey, MachineConfigDaemonStateDegraded)]
             (s\<lparr>glog := glog s @ [MarkingDegraded err]\<rparr>) of
        Blocked \<Rightarrow> Blocked
      | Died p \<Rightarrow> Died p
      | Completed (clientErr, s') \<Rightarrow>
          (case clientErr of
             None \<Rightarrow> Completed (clientErr, s')
           | Some e \<Rightarrow>
               Completed (clientErr, s'\<lparr>glog := glog s' @ [ErrorSettingDegraded node e]\<rparr>)))"

definition SetSSHAccessed ::
  "('b, 'p) libs \<Rightarrow> select_case list \<Rightarrow> ('p, 'x) NodeInterface \<Rightarrow> 'x NodeLister \<Rightarrow> string
     \<Rightarrow> ('p, 'x) process \<Rightarrow> (go_error option \<times> ('p, 'x) process) call"
where
  "SetSSHAccessed L sched client lister node s =
     send_and_receive L sched client lister node
       [(machineConfigDaemonSSHAccessAnnotationKey, machineConfigDaemonSSHAccessValue)] s"

section \<open>Notions used in the statements\<close>

text \<open>
  The state of the process when a \<^verbatim>\<open>Set\<close> operation has made its response channel
  and sent its message, and an idle process: nothing queued, no channel made, nothing
  logged.
\<close>

definition sent ::
  "('p, 'x) NodeInterface \<Rightarrow> 'x NodeLister \<Rightarrow> string \<Rightarrow> (string \<times> string) list
     \<Rightarrow> ('p, 'x) process \<Rightarrow> ('p, 'x) process" where
  "sent client lister node annos s =
     s\<lparr>chans := chans s @ [[]],
       writer := writer s @
         [\<lparr>msg_client = client, msg_lister = lister, msg_node = node, msg_annos = annos,
           msg_responseChannel = length (chans s)\<rparr>]\<rparr>"

definition idle :: "'x world \<Rightarrow> ('p, 'x) process" where
  "idle w = \<lparr>world = w, writer = [], chans = [], glog = []\<rparr>"

text \<open>
  \<open>conflicts k fn e s\<close>: the first \<open>k\<close> attempts that start in state \<open>s\<close> all end in
  a conflict error; the result is the last of these errors and the state they leave.
\<close>

fun conflicts ::
  "nat \<Rightarrow> ('s \<Rightarrow> (go_error option \<times> 's) exec) \<Rightarrow> go_error option \<Rightarrow> 's \<Rightarrow> (go_error option \<times> 's) option"
where
  "conflicts 0 fn lastConflictErr s = Some (lastConflictErr, s)"
| "conflicts (Suc k) fn lastConflictErr s =
     (case fn s of
        Panicked p \<Rightarrow> None
      | Returned (None, s') \<Rightarrow> None
      | Returned (Some err, s') \<Rightarrow>
          if IsConflict err then conflicts k fn (Some err) s' else None)"

text \<open>
  A lister and a client that record the calls they receive, in order, next to the state
  of the collaborators they stand for: the name asked for and the object handed out, the
  name and the patch submitted.
\<close>

datatype 'p call_event =
    Get string "go_error + NodeValue option"
  | Patch string 'p

definition logged_lister :: "'x NodeLister \<Rightarrow> ('x \<times> 'p call_event list) NodeLister" where
  "logged_lister lister name w =
     (case lister name \<lparr>mem = mem w, ext = fst (ext w)\<rparr> of
        (r, w') \<Rightarrow>
          (r, \<lparr>mem = mem w',
               ext = (ext w', snd (ext w) @
                 [Get name (case r of Inl err \<Rightarrow> Inl err | Inr n \<Rightarrow> Inr (load (mem w') n))])\<rparr>))"

definition logged_client ::
  "('p, 'x) NodeInterface \<Rightarrow> ('p, 'x \<times> 'p call_event list) NodeInterface" where
  "logged_client client name patchBytes w =
     (case client name patchBytes \<lparr>mem = mem w, ext = fst (ext w)\<rparr> of
        (r, w') \<Rightarrow> (r, \<lparr>mem = mem w', ext = (ext w', snd (ext w) @ [Patch name patchBytes])\<rparr>))"

text \<open>The world that the collaborators behind a recording lister and client see.\<close>

definition unlogged :: "('x \<times> 'p call_event list) world \<Rightarrow> 'x world" where
  "unlogged w = \<lparr>mem = mem w, ext = fst (ext w)\<rparr>"

text \<open>
  The patch that belongs to a snapshot \<open>nv\<close> when the mutation acts on objects as \<open>g\<close>:
  the difference between the serialised snapshot and the serialised mutated object.
\<close>

definition patch_for ::
  "('b, 'p) libs \<Rightarrow> (NodeValue \<Rightarrow> NodeValue exec) \<Rightarrow> NodeValue \<Rightarrow> 'p option" where
  "patch_for L g nv =
     (case json_Marshal L nv of
        Inl err \<Rightarrow> None
      | Inr oldNode \<Rightarrow>
          (case g nv of
             Panicked p \<Rightarrow> None
           | Returned cv \<Rightarrow>
               (case json_Marshal L cv of
                  Inl err \<Rightarrow> None
                | Inr newNode \<Rightarrow>
                    (case CreateTwoWayMergePatch L oldNode newNode of
                       Inl err \<Rightarrow> None
                     | Inr patchBytes \<Rightarrow> Some patchBytes))))"

text \<open>
  A record of calls in which every patch submitted directly follows a fetch of the same
  name and is the patch that belongs to the object that fetch handed out.
\<close>

fun recomputed ::
  "('b, 'p) libs \<Rightarrow> (NodeValue \<Rightarrow> NodeValue exec) \<Rightarrow> string \<Rightarrow> 'p call_event list \<Rightarrow> bool" where
  "recomputed L g name [] = True"
| "recomputed L g name (Get k r # Patch k' p # tr) =
     (k = name \<and> k' = name \<and>
      (case r of Inr (Some nv) \<Rightarrow> patch_for L g nv = Some p | _ \<Rightarrow> False) \<and>
      recomputed L g name tr)"
| "recomputed L g name (Get k r # tr) = (k = name \<and> recomputed L g name tr)"
| "recomputed L g name (Patch k p # tr) = False"

fun is_Get :: "'p call_event \<Rightarrow> bool" where
  "is_Get (Get k r) = True"
| "is_Get (Patch k p) = False"

text \<open>
  \<open>mutates_as f g\<close>: applied to a pointer, \<open>f\<close> turns the object behind it into what
  \<open>g\<close> makes of that object. \<open>confined f\<close>: \<open>f\<close> writes only to the struct it is given
  and to the map that struct refers to, and allocates.
\<close>

definition mutates_as :: "(addr \<Rightarrow> heap \<Rightarrow> heap exec) \<Rightarrow> (NodeValue \<Rightarrow> NodeValue exec) \<Rightarrow> bool" where
  "mutates_as f g \<longleftrightarrow>
     (\<forall>h p nv h'. load h p = Some nv \<and> f p h = Returned h' \<longrightarrow>
        (\<exists>cv. g nv = Returned cv \<and> load h' p = Some cv))"

definition confined :: "(addr \<Rightarrow> heap \<Rightarrow> heap exec) \<Rightarrow> bool" where
  "confined f \<longleftrightarrow>
     (\<forall>h p h'. p < length (nodes h) \<and> f p h = Returned h' \<longrightarrow>
        length (nodes h) \<le> length (nodes h') \<and> length (maps h) \<le> length (maps h') \<and>
        (\<forall>q < length (nodes h). q \<noteq> p \<longrightarrow> nodes h' ! q = nodes h ! q) \<and>
        (\<forall>a < length (maps h). Annotations (nodes h ! p) \<noteq> Some a \<longrightarrow> maps h' ! a = maps h ! a))"

text \<open>What the mutation of \<^verbatim>\<open>setNodeAnnotations\<close> makes of an object.\<close>

definition annotate :: "(string \<times> string) list \<Rightarrow> NodeValue \<Rightarrow> NodeValue exec" where
  "annotate m nv =
     (if m = [] then Returned nv
      else (case vAnnotations nv of
              None \<Rightarrow> Panicked NilMapAssignment
            | Some a \<Rightarrow> Returned (nv\<lparr>vAnnotations := Some (assign_all m a)\<rparr>)))"


section \<open>A scripted environment\<close>

text \<open>
  For concrete runs: a lister and an API server that answer from a script. The lister hands
  out the next entry of \<open>gets\<close>, the server answers the next patch with the next entry of
  \<open>replies\<close> (\<open>None\<close> accepts it; so does an empty script) and keeps what it received.
  As the typed client does, the server's client allocates the object it returns: on success
  an object of the name asked for, on failure the empty \<^verbatim>\<open>v1.Node{}\<close>. Serialised
  objects are the objects themselves and a patch is the pair it was computed from;
  \<^verbatim>\<open>retry.DefaultBackoff\<close> allows four attempts.
\<close>

record 'p script =
  gets :: "(go_error + addr) list"
  replies :: "go_error option list"
  received :: "(string \<times> 'p) list"

definition script_lister :: "'p script NodeLister" where
  "script_lister name w =
     (case gets (ext w) of
        [] \<Rightarrow> (Inl (OtherError ''not found''), w)
      | r # rs \<Rightarrow> (r, w\<lparr>ext := (ext w)\<lparr>gets := rs\<rparr>\<rparr>))"

definition script_client :: "('p, 'p script) NodeInterface" where
  "script_client name patchBytes w =
     (let reply = (case replies (ext w) of [] \<Rightarrow> None | r # rs \<Rightarrow> r);
          result = \<lparr>Name = (if reply = None then name else []), ResourceVersion = [],
                    Annotations = None\<rparr>
      in ((Some (length (nodes (mem w))), reply),
          \<lparr>mem = (mem w)\<lparr>nodes := nodes (mem w) @ [result]\<rparr>,
           ext = (ext w)\<lparr>replies := tl (replies (ext w)),
                         received := received (ext w) @ [(name, patchBytes)]\<rparr>\<rparr>))"

definition symbolic_libs :: "(NodeValue, NodeValue \<times> NodeValue) libs" where
  "symbolic_libs =
     \<lparr>json_Marshal = Inr, CreateTwoWayMergePatch = (\<lambda>oldNode newNode. Inr (oldNode, newNode)),
      DefaultBackoff_Steps = 4\<rparr>"


text \<open>
  Memories with the object of a node at address 0: in the first the annotation map of
  node-1 is nil, in the others the map holds one entry. \<open>scripted\<close> is the world with
  a given memory and script.
\<close>

definition heap_nil :: heap where
  "heap_nil = \<lparr>nodes = [\<lparr>Name = ''node-1'', ResourceVersion = ''7'', Annotations = None\<rparr>],
               maps = []\<rparr>"

definition heap_one :: heap where
  "heap_one = \<lparr>nodes = [\<lparr>Name = ''node-1'', ResourceVersion = ''7'', Annotations = Some 0\<rparr>],
               maps = [[''kubernetes.io/hostname'' \<mapsto> ''node-1'']]\<rparr>"

definition heap_other :: heap where
  \<comment> \<open>the object of node-2 at address 0\<close>
  "heap_other = \<lparr>nodes = [\<lparr>Name = ''node-2'', ResourceVersion = ''3'', Annotations = Some 0\<rparr>],
                 maps = [[''kubernetes.io/hostname'' \<mapsto> ''node-2'']]\<rparr>"

definition heap_two :: heap where
  \<comment> \<open>two objects of node-1, as the cache holds them before and after a change by
      another writer\<close>
  "heap_two =
     \<lparr>nodes = [\<lparr>Name = ''node-1'', ResourceVersion = ''7'', Annotations = Some 0\<rparr>,
               \<lparr>Name = ''node-1'', ResourceVersion = ''8'', Annotations = Some 1\<rparr>],
      maps = [[''kubernetes.io/hostname'' \<mapsto> ''node-1''],
              [''kubernetes.io/hostname'' \<mapsto> ''node-1'', ''zone'' \<mapsto> ''a'']]\<rparr>"

definition scripted ::
  "heap \<Rightarrow> (go_error + addr) list \<Rightarrow> go_error option list \<Rightarrow> 'p script world" where
  "scripted h gs rs = \<lparr>mem = h, ext = \<lparr>gets = gs, replies = rs, received = []\<rparr>\<rparr>"

text \<open>
  Libraries that fail, for runs in which an attempt ends before it reaches the client.
\<close>

definition marshal_failing_libs :: "(NodeValue, NodeValue \<times> NodeValue) libs" where
  \<comment> \<open>\<^verbatim>\<open>json.Marshal\<close> fails on an object without an annotation map and on an object
      with a state annotation\<close>
  "marshal_failing_libs =
     \<lparr>json_Marshal =
        (\<lambda>v. case vAnnotations v of
                None \<Rightarrow> Inl (OtherError ''json: unsupported value'')
              | Some a \<Rightarrow>
                  if a MachineConfigDaemonStateAnnotationKey = None then Inr v
                  else Inl (OtherError ''json: unsupported type'')),
      CreateTwoWayMergePatch = (\<lambda>oldNode newNode. Inr (oldNode, newNode)),
      DefaultBackoff_Steps = 4\<rparr>"

definition patch_failing_libs :: "(NodeValue, NodeValue \<times> NodeValue) libs" where
  \<comment> \<open>\<^verbatim>\<open>CreateTwoWayMergePatch\<close> fails, with an error that is itself a conflict\<close>
  "patch_failing_libs =
     \<lparr>json_Marshal = Inr,
      CreateTwoWayMergePatch =
        (\<lambda>oldNode newNode. Inl (StatusConflict ''precondition failed'')),
      DefaultBackoff_Steps = 4\<rparr>"

section \<open>An API server that applies patches\<close>




record store =
  stored :: "string \<rightharpoonup> (string \<rightharpoonup> string)"
  cache :: "string \<rightharpoonup> addr"








section \<open>Properties of the mutation\<close>

lemma assign_all_other: "k \<notin> fst ` set m \<Longrightarrow> assign_all m a k = a k"
  by (induction m arbitrary: a) auto

text \<open>
  A Go map has one entry for a key, and the order in which \<^verbatim>\<open>range\<close> visits the
  entries is not fixed; with one entry for a key the order makes no difference to what is
  written.
\<close>

lemma assign_all_map_add: "distinct (map fst m) \<Longrightarrow> assign_all m a = a ++ map_of m"
proof (induction m arbitrary: a)
  case Nil
  then show ?case by simp
next
  case (Cons kv m)
  obtain k v where kv: "kv = (k, v)" by (cases kv)
  from Cons.prems kv have k: "k \<notin> dom (map_of m)" and d: "distinct (map fst m)"
    by (auto simp: dom_map_of_conv_image_fst)
  have "assign_all (kv # m) a = a(k \<mapsto> v) ++ map_of m"
    using Cons.IH [OF d, of "a(k \<mapsto> v)"] by (simp only: kv assign_all.simps)
  also have "\<dots> = (a ++ map_of m)(k \<mapsto> v)"
    using k by (rule map_add_upd_left)
  also have "\<dots> = a ++ map_of (kv # m)"
    using kv by simp
  finally show ?case .
qed

lemma assign_all_order:
  assumes "distinct (map fst m)" and "distinct (map fst m')" and "set m = set m'"
  shows "assign_all m a = assign_all m' a"
proof -
  have "map_of m = map_of m'"
    using assms by (simp add: map_of_inject_set)
  then show ?thesis
    using assms(1,2) by (simp add: assign_all_map_add)
qed

lemma assign_all_single: "assign_all [(k, v)] a = a(k \<mapsto> v)"
  by simp

lemma setNodeAnnotations_func_maps:
  assumes "node < length (nodes h)" and "Annotations (nodes h ! node) = Some a"
    and "a < length (maps h)"
  shows "setNodeAnnotations_func m node h =
           Returned (h\<lparr>maps := (maps h)[a := assign_all m (maps h ! a)]\<rparr>)"
  using assms
proof (induction m arbitrary: h)
  case Nil
  then show ?case by simp
next
  case (Cons kv m)
  obtain k v where kv: "kv = (k, v)" by (cases kv)
  let ?h = "h\<lparr>maps := (maps h)[a := (maps h ! a)(k \<mapsto> v)]\<rparr>"
  have "setNodeAnnotations_func m node ?h =
          Returned (?h\<lparr>maps := (maps ?h)[a := assign_all m (maps ?h ! a)]\<rparr>)"
    using Cons.prems by (intro Cons.IH) simp_all
  then show ?case using Cons.prems by (simp add: kv)
qed

lemma load_Some_cases:
  assumes "load h p = Some nv"
  shows "p < length (nodes h) \<and>
         (case Annotations (nodes h ! p) of
            None \<Rightarrow> vAnnotations nv = None
          | Some a \<Rightarrow> a < length (maps h) \<and> vAnnotations nv = Some (maps h ! a))"
  using assms by (auto simp: load_def split: if_splits option.splits)

lemma DeepCopy_Returned:
  assumes "load h n = Some nv"
  shows "\<exists>h1. DeepCopy h n = Returned (length (nodes h), h1) \<and>
              load h1 (length (nodes h)) = Some nv \<and>
              take (length (nodes h)) (nodes h1) = nodes h \<and>
              take (length (maps h)) (maps h1) = maps h \<and>
              length (nodes h1) = Suc (length (nodes h)) \<and>
              (case vAnnotations nv of
                 None \<Rightarrow> Annotations (nodes h1 ! length (nodes h)) = None
               | Some a \<Rightarrow> Annotations (nodes h1 ! length (nodes h)) = Some (length (maps h)) \<and>
                           length (maps h1) = Suc (length (maps h)))"
  using assms
  by (auto simp: load_def DeepCopy_def nth_append split: if_splits option.splits)

lemma setNodeAnnotations_func_nil:
  assumes "m \<noteq> []" and "node < length (nodes h)" and "Annotations (nodes h ! node) = None"
  shows "setNodeAnnotations_func m node h = Panicked NilMapAssignment"
  using assms by (cases m) auto

lemma RetryOnConflict_panic:
  "0 < steps \<Longrightarrow> fn s = Panicked p \<Longrightarrow> RetryOnConflict steps fn s = Panicked p"
  by (cases steps) (simp_all add: RetryOnConflict_def)

lemma setNodeAnnotations_nil_map:
  assumes "m \<noteq> []"
    and "lister nodeName w = (Inr n, w1)"
    and "load (mem w1) n = Some nv" and "vAnnotations nv = None"
    and "json_Marshal L nv = Inr b" and "0 < DefaultBackoff_Steps L"
  shows "setNodeAnnotations_func m n (mem w1) = Panicked NilMapAssignment \<and>
         setNodeAnnotations L client lister nodeName m w = Panicked NilMapAssignment"
proof
  let ?h = "mem w1"
  from assms(3,4) have n: "n < length (nodes ?h)" "Annotations (nodes ?h ! n) = None"
    by (auto dest!: load_Some_cases split: option.splits)
  show "setNodeAnnotations_func m n ?h = Panicked NilMapAssignment"
    using assms(1) n by (rule setNodeAnnotations_func_nil)
  from DeepCopy_Returned [OF assms(3)] obtain h1 where
    h1: "DeepCopy ?h n = Returned (length (nodes ?h), h1)"
      "load h1 (length (nodes ?h)) = Some nv"
      "length (nodes h1) = Suc (length (nodes ?h))"
      "Annotations (nodes h1 ! length (nodes ?h)) = None"
    using assms(4) by auto
  have "setNodeAnnotations_func m (length (nodes ?h)) h1 = Panicked NilMapAssignment"
    using assms(1) h1(3,4) by (intro setNodeAnnotations_func_nil) simp_all
  then have "updateNodeRetry_patch L nodeName (setNodeAnnotations_func m) n ?h =
               Panicked NilMapAssignment"
    using assms(3,5) h1(1) by (simp add: updateNodeRetry_patch_def)
  then have "updateNodeRetry_func L client lister nodeName (setNodeAnnotations_func m) (None, w) =
               Panicked NilMapAssignment"
    using assms(2) by (simp add: updateNodeRetry_func_def)
  then show "setNodeAnnotations L client lister nodeName m w = Panicked NilMapAssignment"
    using assms(6) by (simp add: setNodeAnnotations_def updateNodeRetry_def RetryOnConflict_panic)
qed

lemma load_Some_annotated:
  assumes "load h p = Some nv" and "vAnnotations nv = Some a"
  shows "\<exists>r. p < length (nodes h) \<and> Annotations (nodes h ! p) = Some r \<and>
             r < length (maps h) \<and> maps h ! r = a"
  using assms by (auto simp: load_def split: if_splits option.splits)

lemma load_maps_update:
  assumes "load h p = Some nv" and "Annotations (nodes h ! p) = Some r"
  shows "load (h\<lparr>maps := (maps h)[r := a']\<rparr>) p = Some (nv\<lparr>vAnnotations := Some a'\<rparr>)"
  using assms by (auto simp: load_def split: if_splits option.splits)

lemma setNodeAnnotations_func_load:
  assumes "load h node = Some nv" and "vAnnotations nv = Some a"
  shows "\<exists>h'. setNodeAnnotations_func m node h = Returned h' \<and>
              load h' node = Some (nv\<lparr>vAnnotations := Some (assign_all m a)\<rparr>)"
proof -
  from load_Some_annotated [OF assms] obtain r where
    r: "node < length (nodes h)" "Annotations (nodes h ! node) = Some r"
       "r < length (maps h)" "maps h ! r = a"
    by blast
  have "setNodeAnnotations_func m node h =
          Returned (h\<lparr>maps := (maps h)[r := assign_all m (maps h ! r)]\<rparr>)"
    using r(1-3) by (rule setNodeAnnotations_func_maps)
  moreover have "load (h\<lparr>maps := (maps h)[r := assign_all m (maps h ! r)]\<rparr>) node =
                   Some (nv\<lparr>vAnnotations := Some (assign_all m a)\<rparr>)"
    using load_maps_update [OF assms(1) r(2)] r(4) by simp
  ultimately show ?thesis by simp
qed

section \<open>The mutation writes the keys of \<open>m\<close> only\<close>

text \<open>
  Claim C8. On a node whose annotation map is not nil, the mutation of
  \<^verbatim>\<open>setNodeAnnotations\<close> returns, the object afterwards differs from the object before
  in its annotations only, which are the old ones with the entries of \<open>m\<close> written over
  them, and every key that is not a key of \<open>m\<close> keeps its value. In particular the
  annotation of \<^verbatim>\<open>SetSSHAccessed\<close> followed by that of \<^verbatim>\<open>SetDegraded\<close>, or the two
  in the other order, leave both annotations with the values written.
\<close>

theorem setNodeAnnotations_func_writes_only_m:
  assumes "load h node = Some nv" and "vAnnotations nv = Some a"
  shows "(\<exists>h'. setNodeAnnotations_func m node h = Returned h' \<and>
               load h' node = Some (nv\<lparr>vAnnotations := Some (assign_all m a)\<rparr>)) \<and>
         (\<forall>k. k \<notin> fst ` set m \<longrightarrow> assign_all m a k = a k) \<and>
         (\<exists>h1 h2 a'.
            setNodeAnnotations_func
              [(machineConfigDaemonSSHAccessAnnotationKey, machineConfigDaemonSSHAccessValue)]
              node h = Returned h1 \<and>
            setNodeAnnotations_func
              [(MachineConfigDaemonStateAnnotationKey, MachineConfigDaemonStateDegraded)]
              node h1 = Returned h2 \<and>
            load h2 node = Some (nv\<lparr>vAnnotations := Some a'\<rparr>) \<and>
            a' machineConfigDaemonSSHAccessAnnotationKey = Some machineConfigDaemonSSHAccessValue \<and>
            a' MachineConfigDaemonStateAnnotationKey = Some MachineConfigDaemonStateDegraded) \<and>
         (\<exists>h1 h2 a'.
            setNodeAnnotations_func
              [(MachineConfigDaemonStateAnnotationKey, MachineConfigDaemonStateDegraded)]
              node h = Returned h1 \<and>
            setNodeAnnotations_func
              [(machineConfigDaemonSSHAccessAnnotationKey, machineConfigDaemonSSHAccessValue)]
              node h1 = Returned h2 \<and>
            load h2 node = Some (nv\<lparr>vAnnotations := Some a'\<rparr>) \<and>
            a' machineConfigDaemonSSHAccessAnnotationKey = Some machineConfigDaemonSSHAccessValue \<and>
            a' MachineConfigDaemonStateAnnotationKey = Some MachineConfigDaemonStateDegraded)"
proof (intro conjI)
  show "\<exists>h'. setNodeAnnotations_func m node h = Returned h' \<and>
               load h' node = Some (nv\<lparr>vAnnotations := Some (assign_all m a)\<rparr>)"
    using assms by (rule setNodeAnnotations_func_load)
  show "\<forall>k. k \<notin> fst ` set m \<longrightarrow> assign_all m a k = a k"
    by (simp add: assign_all_other)
  have keys: "machineConfigDaemonSSHAccessAnnotationKey \<noteq> MachineConfigDaemonStateAnnotationKey"
    by (simp add: machineConfigDaemonSSHAccessAnnotationKey_def
        MachineConfigDaemonStateAnnotationKey_def)
  let ?ssh = "[(machineConfigDaemonSSHAccessAnnotationKey, machineConfigDaemonSSHAccessValue)]"
  let ?deg = "[(MachineConfigDaemonStateAnnotationKey, MachineConfigDaemonStateDegraded)]"
  show "\<exists>h1 h2 a'. setNodeAnnotations_func ?ssh node h = Returned h1 \<and>
          setNodeAnnotations_func ?deg node h1 = Returned h2 \<and>
          load h2 node = Some (nv\<lparr>vAnnotations := Some a'\<rparr>) \<and>
          a' machineConfigDaemonSSHAccessAnnotationKey = Some machineConfigDaemonSSHAccessValue \<and>
          a' MachineConfigDaemonStateAnnotationKey = Some MachineConfigDaemonStateDegraded"
  proof -
    from setNodeAnnotations_func_load [OF assms, of ?ssh] obtain h1 where
      h1: "setNodeAnnotations_func ?ssh node h = Returned h1"
          "load h1 node = Some (nv\<lparr>vAnnotations := Some (assign_all ?ssh a)\<rparr>)"
      by blast
    from setNodeAnnotations_func_load [OF h1(2), of "assign_all ?ssh a" ?deg] obtain h2 where
      h2: "setNodeAnnotations_func ?deg node h1 = Returned h2"
          "load h2 node = Some (nv\<lparr>vAnnotations := Some (assign_all ?deg (assign_all ?ssh a))\<rparr>)"
      by auto
    show ?thesis
      using h1(1) h2 keys by (intro exI conjI) (assumption, assumption, assumption, simp_all)
  qed
  show "\<exists>h1 h2 a'. setNodeAnnotations_func ?deg node h = Returned h1 \<and>
          setNodeAnnotations_func ?ssh node h1 = Returned h2 \<and>
          load h2 node = Some (nv\<lparr>vAnnotations := Some a'\<rparr>) \<and>
          a' machineConfigDaemonSSHAccessAnnotationKey = Some machineConfigDaemonSSHAccessValue \<and>
          a' MachineConfigDaemonStateAnnotationKey = Some MachineConfigDaemonStateDegraded"
  proof -
    from setNodeAnnotations_func_load [OF assms, of ?deg] obtain h1 where
      h1: "setNodeAnnotations_func ?deg node h = Returned h1"
          "load h1 node = Some (nv\<lparr>vAnnotations := Some (assign_all ?deg a)\<rparr>)"
      by blast
    from setNodeAnnotations_func_load [OF h1(2), of "assign_all ?deg a" ?ssh] obtain h2 where
      h2: "setNodeAnnotations_func ?ssh node h1 = Returned h2"
          "load h2 node = Some (nv\<lparr>vAnnotations := Some (assign_all ?ssh (assign_all ?deg a))\<rparr>)"
      by auto
    show ?thesis
      using h1(1) h2 keys by (intro exI conjI) (assumption, assumption, assumption, simp_all)
  qed
qed

text \<open>
  The theorem at node-1 with the single annotation of its host name and the annotation of
  \<^verbatim>\<open>SetDegraded\<close>: the host name is still there.
\<close>

theorem setNodeAnnotations_func_writes_only_m_witness:
  "load heap_one 0 =
     Some \<lparr>vName = ''node-1'', vResourceVersion = ''7'',
           vAnnotations = Some [''kubernetes.io/hostname'' \<mapsto> ''node-1'']\<rparr> \<and>
   (\<exists>h'. setNodeAnnotations_func
            [(MachineConfigDaemonStateAnnotationKey, MachineConfigDaemonStateDegraded)]
            0 heap_one = Returned h' \<and>
         map_option vAnnotations (load h' 0) =
           Some (Some (assign_all
             [(MachineConfigDaemonStateAnnotationKey, MachineConfigDaemonStateDegraded)]
             [''kubernetes.io/hostname'' \<mapsto> ''node-1'']))) \<and>
   assign_all [(MachineConfigDaemonStateAnnotationKey, MachineConfigDaemonStateDegraded)]
     [''kubernetes.io/hostname'' \<mapsto> ''node-1''] ''kubernetes.io/hostname'' = Some ''node-1''"
proof -
  let ?a = "[''kubernetes.io/hostname'' \<mapsto> ''node-1'']"
  let ?nv = "\<lparr>vName = ''node-1'', vResourceVersion = ''7'', vAnnotations = Some ?a\<rparr>"
  let ?m = "[(MachineConfigDaemonStateAnnotationKey, MachineConfigDaemonStateDegraded)]"
  have 1: "load heap_one 0 = Some ?nv"
    by (simp add: load_def heap_one_def)
  have 2: "vAnnotations ?nv = Some ?a"
    by simp
  have 3: "''kubernetes.io/hostname'' \<notin> fst ` set ?m"
    by (simp add: MachineConfigDaemonStateAnnotationKey_def)
  note t = setNodeAnnotations_func_writes_only_m [OF 1 2, of ?m]
  from t obtain h' where
    h': "setNodeAnnotations_func ?m 0 heap_one = Returned h'"
        "load h' 0 = Some (?nv\<lparr>vAnnotations := Some (assign_all ?m ?a)\<rparr>)"
    by blast
  from t have "\<forall>k. k \<notin> fst ` set ?m \<longrightarrow> assign_all ?m ?a k = ?a k"
    by blast
  with 3 have "assign_all ?m ?a ''kubernetes.io/hostname'' = Some ''node-1''"
    by simp
  moreover have "map_option vAnnotations (load h' 0) = Some (Some (assign_all ?m ?a))"
    using h'(2) by simp
  ultimately show ?thesis
    using 1 h'(1) by blast
qed

lemma setNodeAnnotations_func_confined: "confined (setNodeAnnotations_func m)"
  unfolding confined_def
proof (intro allI impI)
  fix h p h'
  assume a: "p < length (nodes h) \<and> setNodeAnnotations_func m p h = Returned h'"
  show "length (nodes h) \<le> length (nodes h') \<and> length (maps h) \<le> length (maps h') \<and>
        (\<forall>q<length (nodes h). q \<noteq> p \<longrightarrow> nodes h' ! q = nodes h ! q) \<and>
        (\<forall>a<length (maps h). Annotations (nodes h ! p) \<noteq> Some a \<longrightarrow> maps h' ! a = maps h ! a)"
  proof (cases m)
    case Nil
    with a show ?thesis by simp
  next
    case (Cons kv m')
    obtain k v where kv: "kv = (k, v)" by (cases kv)
    from a Cons kv obtain r where r: "Annotations (nodes h ! p) = Some r" "r < length (maps h)"
      by (auto split: option.splits if_splits)
    from a have "h' = h\<lparr>maps := (maps h)[r := assign_all m (maps h ! r)]\<rparr>"
      using setNodeAnnotations_func_maps [of p h r m] r by simp
    then show ?thesis using r by simp
  qed
qed

lemma updateNodeRetry_patch_frame:
  assumes "confined f" and "updateNodeRetry_patch L nodeName f n h = Returned (r, h')"
  shows "load h' n = load h n \<and> nodes h' ! n = nodes h ! n \<and>
         (\<forall>a. Annotations (nodes h ! n) = Some a \<longrightarrow> maps h' ! a = maps h ! a)"
proof -
  from assms(2) obtain nv where nv: "load h n = Some nv"
    by (auto simp: updateNodeRetry_patch_def split: option.splits)
  show ?thesis
  proof (cases "json_Marshal L nv")
    case (Inl err)
    with assms(2) nv show ?thesis by (simp add: updateNodeRetry_patch_def)
  next
    case (Inr oldNode)
    let ?c = "length (nodes h)"
    from DeepCopy_Returned [OF nv] obtain h1 where
      h1: "DeepCopy h n = Returned (?c, h1)"
        "take ?c (nodes h1) = nodes h" "take (length (maps h)) (maps h1) = maps h"
        "length (nodes h1) = Suc ?c"
        "case vAnnotations nv of None \<Rightarrow> Annotations (nodes h1 ! ?c) = None
         | Some a \<Rightarrow> Annotations (nodes h1 ! ?c) = Some (length (maps h)) \<and>
                     length (maps h1) = Suc (length (maps h))"
      by blast
    from assms(2) nv Inr h1(1) obtain h2 where h2: "f ?c h1 = Returned h2" and h': "h' = h2"
      by (auto simp: updateNodeRetry_patch_def split: exec.splits option.splits sum.splits)
    from nv have n: "n < ?c" by (auto dest: load_Some_cases)
    have nodes1: "nodes h1 ! n = nodes h ! n"
      using h1(2) n by (metis nth_take)
    have len_maps: "length (maps h) \<le> length (maps h1)"
      using h1(3) by (metis length_take min.cobounded2 min_def order_refl take_all_iff linorder_le_cases)
    from assms(1) h2 h1(4) have conf:
      "length (nodes h1) \<le> length (nodes h2)" "length (maps h1) \<le> length (maps h2)"
      "\<forall>q<length (nodes h1). q \<noteq> ?c \<longrightarrow> nodes h2 ! q = nodes h1 ! q"
      "\<forall>a<length (maps h1). Annotations (nodes h1 ! ?c) \<noteq> Some a \<longrightarrow> maps h2 ! a = maps h1 ! a"
      unfolding confined_def by (metis lessI)+
    have nodes2: "nodes h2 ! n = nodes h ! n"
      using conf(3) n h1(4) nodes1 by simp
    have maps2: "maps h2 ! a = maps h ! a" if "a < length (maps h)" for a
    proof -
      have "Annotations (nodes h1 ! ?c) \<noteq> Some a"
        using h1(5) that by (auto split: option.splits)
      moreover have "a < length (maps h1)" using that len_maps by simp
      ultimately have "maps h2 ! a = maps h1 ! a" using conf(4) by blast
      also have "maps h1 ! a = maps h ! a" using h1(3) that by (metis nth_take)
      finally show ?thesis .
    qed
    have "load h2 n = load h n"
    proof (cases "Annotations (nodes h ! n)")
      case None
      then show ?thesis using n conf(1) h1(4) nodes2 by (simp add: load_def)
    next
      case (Some a)
      with nv have a: "a < length (maps h)" by (auto dest: load_Some_cases)
      then have "a < length (maps h2)" using len_maps conf(2) by simp
      then show ?thesis using Some n conf(1) h1(4) nodes2 maps2 [OF a] a by (simp add: load_def)
    qed
    moreover have "\<forall>a. Annotations (nodes h ! n) = Some a \<longrightarrow> maps h2 ! a = maps h ! a"
    proof (intro allI impI)
      fix a assume "Annotations (nodes h ! n) = Some a"
      with nv have "a < length (maps h)" by (auto dest: load_Some_cases)
      then show "maps h2 ! a = maps h ! a" by (rule maps2)
    qed
    ultimately show ?thesis using nodes2 h' by simp
  qed
qed

section \<open>The fetched object is left alone\<close>

text \<open>
  Claim C6. In every attempt the mutation is applied to a copy of the object that the
  lister handed out. Provided the mutation writes only through the pointer it is given, the
  memory \<open>h'\<close> that the attempt's own steps leave behind (the memory in which the attempt
  returns its error, or in which it calls the client) holds the fetched object unchanged:
  the struct, the annotation map it refers to, hence what a reader of the object sees and
  what \<^verbatim>\<open>json.Marshal\<close> makes of it.
\<close>

theorem updateNodeRetry_func_keeps_snapshot:
  assumes "confined f"
    and "lister nodeName w = (Inr n, w1)"
    and "updateNodeRetry_func L client lister nodeName f (node, w) = Returned (err, node', w2)"
  shows "\<exists>h'. load h' n = load (mem w1) n \<and>
              map_option (json_Marshal L) (load h' n) =
                map_option (json_Marshal L) (load (mem w1) n) \<and>
              nodes h' ! n = nodes (mem w1) ! n \<and>
              (\<forall>a. Annotations (nodes (mem w1) ! n) = Some a \<longrightarrow>
                   maps h' ! a = maps (mem w1) ! a) \<and>
              ((node' = node \<and> w2 = w1\<lparr>mem := h'\<rparr>) \<or>
               (\<exists>patchBytes. client nodeName patchBytes (w1\<lparr>mem := h'\<rparr>) = ((node', err), w2)))"
proof -
  from assms(2,3) obtain r h' where
    patch: "updateNodeRetry_patch L nodeName f n (mem w1) = Returned (r, h')"
    by (auto simp: updateNodeRetry_func_def split: exec.splits)
  have "(node' = node \<and> w2 = w1\<lparr>mem := h'\<rparr>) \<or>
        (\<exists>patchBytes. client nodeName patchBytes (w1\<lparr>mem := h'\<rparr>) = ((node', err), w2))"
    using assms(2,3) patch
    by (cases r) (auto simp: updateNodeRetry_func_def split: prod.splits)
  moreover note updateNodeRetry_patch_frame [OF assms(1) patch]
  ultimately show ?thesis by (intro exI [of _ h']) simp
qed

text \<open>
  The theorem at node-1 with one annotation, the mutation of \<^verbatim>\<open>SetWorking\<close> and an
  API server that accepts the patch: the attempt returns, and the fetched object at address
  0 is as it was.
\<close>

theorem updateNodeRetry_func_keeps_snapshot_witness:
  "\<exists>err node' w2 h'.
     updateNodeRetry_func symbolic_libs script_client script_lister ''node-1''
       (setNodeAnnotations_func
          [(MachineConfigDaemonStateAnnotationKey, MachineConfigDaemonStateWorking)])
       (None, scripted heap_one [Inr 0] []) = Returned (err, node', w2) \<and>
     load h' 0 = load heap_one 0 \<and>
     nodes h' ! 0 = nodes heap_one ! 0 \<and>
     ((node' = None \<and> w2 = scripted h' [] []) \<or>
      (\<exists>patchBytes. script_client ''node-1'' patchBytes (scripted h' [] []) =
         ((node', err), w2)))"
proof -
  let ?f = "setNodeAnnotations_func
          [(MachineConfigDaemonStateAnnotationKey, MachineConfigDaemonStateWorking)]"
  let ?w = "scripted heap_one [Inr 0] [] :: (NodeValue \<times> NodeValue) script world"
  have 1: "script_lister ''node-1'' ?w = (Inr 0, scripted heap_one [] [])"
    by (simp add: script_lister_def scripted_def)
  obtain err node' w2 where
    2: "updateNodeRetry_func symbolic_libs script_client script_lister ''node-1'' ?f (None, ?w) =
          Returned (err, node', w2)"
    by (simp add: updateNodeRetry_func_def updateNodeRetry_patch_def load_def DeepCopy_def
        script_lister_def script_client_def symbolic_libs_def scripted_def heap_one_def Let_def
        nth_append)
  from updateNodeRetry_func_keeps_snapshot [OF setNodeAnnotations_func_confined 1 2]
  obtain h' where
    "load h' 0 = load heap_one 0" "nodes h' ! 0 = nodes heap_one ! 0"
    "(node' = None \<and> w2 = scripted h' [] []) \<or>
     (\<exists>patchBytes. script_client ''node-1'' patchBytes (scripted h' [] []) = ((node', err), w2))"
    by (auto simp: scripted_def)
  with 2 show ?thesis by blast
qed

lemma conflicts_RetryOnConflict_loop:
  "conflicts k fn e s = Some (e', s') \<Longrightarrow>
     RetryOnConflict_loop (k + j) fn e s = RetryOnConflict_loop j fn e' s'"
  by (induction k arbitrary: e s) (auto split: exec.splits option.splits if_splits)

lemma RetryOnConflict_after_conflicts:
  assumes "k < steps" and "conflicts k fn None s = Some (e, s')"
  shows "RetryOnConflict steps fn s = RetryOnConflict_loop (steps - k) fn e s'"
  using conflicts_RetryOnConflict_loop [OF assms(2), of "steps - k"] assms(1)
  by (simp add: RetryOnConflict_def)

text \<open>
  The errors that an attempt returns: the error of the lister, an error of
  \<^verbatim>\<open>json.Marshal\<close>, the error built around an error of
  \<^verbatim>\<open>CreateTwoWayMergePatch\<close>, or the error of the client.
\<close>

lemma updateNodeRetry_patch_error:
  assumes "updateNodeRetry_patch L nodeName f n h = Returned (Inl err, h')"
  shows "(\<exists>v. json_Marshal L v = Inl err) \<or>
         (\<exists>oldNode newNode e. CreateTwoWayMergePatch L oldNode newNode = Inl e \<and>
            err = FailedToCreatePatch nodeName e)"
  using assms
  by (fastforce simp: updateNodeRetry_patch_def split: option.splits sum.splits exec.splits)

lemma updateNodeRetry_func_error:
  assumes "updateNodeRetry_func L client lister nodeName f (node, w) =
             Returned (Some err, node', w')"
  shows "(\<exists>w1. lister nodeName w = (Inl err, w1)) \<or>
         (\<exists>v. json_Marshal L v = Inl err) \<or>
         (\<exists>oldNode newNode e. CreateTwoWayMergePatch L oldNode newNode = Inl e \<and>
            err = FailedToCreatePatch nodeName e) \<or>
         (\<exists>patchBytes w2. client nodeName patchBytes w2 = ((node', Some err), w'))"
proof -
  obtain r w1 where get: "lister nodeName w = (r, w1)"
    by (cases "lister nodeName w")
  show ?thesis
  proof (cases r)
    case (Inl e)
    with assms get show ?thesis by (auto simp: updateNodeRetry_func_def)
  next
    case (Inr n)
    from assms get Inr obtain res h where
      patch: "updateNodeRetry_patch L nodeName f n (mem w1) = Returned (res, h)"
      by (auto simp: updateNodeRetry_func_def split: exec.splits)
    show ?thesis
    proof (cases res)
      case (Inl e)
      with assms get Inr patch have "e = err"
        by (simp add: updateNodeRetry_func_def)
      with updateNodeRetry_patch_error [of L nodeName f n "mem w1" e h] patch Inl
      show ?thesis by blast
    next
      case (Inr p)
      with assms get \<open>r = Inr n\<close> patch
      have "client nodeName p (w1\<lparr>mem := h\<rparr>) = ((node', Some err), w')"
        by (simp add: updateNodeRetry_func_def split: prod.splits)
      then show ?thesis by blast
    qed
  qed
qed

section \<open>Errors that are not conflicts\<close>

text \<open>
  An attempt that the attempt limit still allows and that returns an error that is not a
  conflict is the last one: \<^verbatim>\<open>updateNodeRetry\<close> returns in the world that this attempt
  left, with a nil node and an error that carries the attempt's error.
\<close>

lemma updateNodeRetry_attempt_error:
  assumes "k < DefaultBackoff_Steps L"
    and "conflicts k (updateNodeRetry_func L client lister nodeName f) None (None, w) = Some (e, s)"
    and "updateNodeRetry_func L client lister nodeName f s = Returned (Some err, node, w')"
    and "\<not> IsConflict err"
  shows "updateNodeRetry L client lister nodeName f w =
           Returned ((None, Some (UnableToUpdateNode (format_node (mem w') node) err)), w')"
proof -
  let ?fn = "updateNodeRetry_func L client lister nodeName f"
  obtain j where j: "DefaultBackoff_Steps L - k = Suc j"
    using assms(1) by (cases "DefaultBackoff_Steps L - k") simp_all
  have "RetryOnConflict (DefaultBackoff_Steps L) ?fn (None, w) =
          RetryOnConflict_loop (Suc j) ?fn e s"
    using RetryOnConflict_after_conflicts [OF assms(1,2)] j by simp
  also have "\<dots> = Returned (Some err, node, w')"
    using assms(3,4) by simp
  finally show ?thesis
    by (simp add: updateNodeRetry_def)
qed

text \<open>
  What the function literal returns at each of its five \<^verbatim>\<open>return\<close> statements that
  can carry an error: after \<^verbatim>\<open>lister.Get\<close> (line 164), after the first
  \<^verbatim>\<open>json.Marshal\<close> (line 168), after the second (line 176), after
  \<^verbatim>\<open>CreateTwoWayMergePatch\<close> (line 181) and after \<^verbatim>\<open>Patch\<close> (line 185).
\<close>

lemma attempt_lister_error:
  "lister nodeName wk = (Inl err, w1) \<Longrightarrow>
     updateNodeRetry_func L client lister nodeName f (node, wk) = Returned (Some err, node, w1)"
  by (simp add: updateNodeRetry_func_def)

lemma attempt_marshal_snapshot_error:
  "lister nodeName wk = (Inr n, w1) \<Longrightarrow> load (mem w1) n = Some nv \<Longrightarrow>
   json_Marshal L nv = Inl err \<Longrightarrow>
     updateNodeRetry_func L client lister nodeName f (node, wk) = Returned (Some err, node, w1)"
  by (simp add: updateNodeRetry_func_def updateNodeRetry_patch_def)

lemma attempt_marshal_copy_error:
  "lister nodeName wk = (Inr n, w1) \<Longrightarrow> load (mem w1) n = Some nv \<Longrightarrow>
   json_Marshal L nv = Inr oldNode \<Longrightarrow> DeepCopy (mem w1) n = Returned (nodeClone, h1) \<Longrightarrow>
   f nodeClone h1 = Returned h2 \<Longrightarrow> load h2 nodeClone = Some cv \<Longrightarrow>
   json_Marshal L cv = Inl err \<Longrightarrow>
     updateNodeRetry_func L client lister nodeName f (node, wk) =
       Returned (Some err, node, w1\<lparr>mem := h2\<rparr>)"
  by (simp add: updateNodeRetry_func_def updateNodeRetry_patch_def)

lemma attempt_patch_error:
  "lister nodeName wk = (Inr n, w1) \<Longrightarrow> load (mem w1) n = Some nv \<Longrightarrow>
   json_Marshal L nv = Inr oldNode \<Longrightarrow> DeepCopy (mem w1) n = Returned (nodeClone, h1) \<Longrightarrow>
   f nodeClone h1 = Returned h2 \<Longrightarrow> load h2 nodeClone = Some cv \<Longrightarrow>
   json_Marshal L cv = Inr newNode \<Longrightarrow> CreateTwoWayMergePatch L oldNode newNode = Inl err \<Longrightarrow>
     updateNodeRetry_func L client lister nodeName f (node, wk) =
       Returned (Some (FailedToCreatePatch nodeName err), node, w1\<lparr>mem := h2\<rparr>)"
  by (simp add: updateNodeRetry_func_def updateNodeRetry_patch_def)

lemma attempt_client_error:
  "lister nodeName wk = (Inr n, w1) \<Longrightarrow> load (mem w1) n = Some nv \<Longrightarrow>
   json_Marshal L nv = Inr oldNode \<Longrightarrow> DeepCopy (mem w1) n = Returned (nodeClone, h1) \<Longrightarrow>
   f nodeClone h1 = Returned h2 \<Longrightarrow> load h2 nodeClone = Some cv \<Longrightarrow>
   json_Marshal L cv = Inr newNode \<Longrightarrow>
   CreateTwoWayMergePatch L oldNode newNode = Inr patchBytes \<Longrightarrow>
   client nodeName patchBytes (w1\<lparr>mem := h2\<rparr>) = ((node', err), w2) \<Longrightarrow>
     updateNodeRetry_func L client lister nodeName f (node, wk) = Returned (err, node', w2)"
  by (simp add: updateNodeRetry_func_def updateNodeRetry_patch_def)

text \<open>
  Claim C2. Let \<open>k\<close> attempts have ended in a conflict, \<open>k\<close> below the attempt limit, and
  let them leave the variable \<^verbatim>\<open>node\<close> and the world \<open>wk\<close>. Then for each source of an
  error in the next attempt \<^verbatim>\<open>updateNodeRetry\<close> returns a nil node and that error
  (wrapped by line 188), in the world as it is at that point of the attempt, so without
  a further call of the lister or the client:
  \<^item> the lister fails with an error that is not a conflict;
  \<^item> \<^verbatim>\<open>json.Marshal\<close> of the fetched object \<open>nv\<close> fails with such an error;
  \<^item> \<^verbatim>\<open>json.Marshal\<close> of the mutated copy \<open>cv\<close> fails with such an error;
  \<^item> \<^verbatim>\<open>CreateTwoWayMergePatch\<close> fails, with any error: what the attempt returns is
    the error that line 181 builds around it, which is no conflict;
  \<^item> the client fails with an error that is not a conflict.
\<close>

theorem updateNodeRetry_other_error_not_retried:
  assumes "k < DefaultBackoff_Steps L"
    and "conflicts k (updateNodeRetry_func L client lister nodeName f) None (None, w) =
           Some (e, node, wk)"
  shows
    "(lister nodeName wk = (Inl err, w1) \<and> \<not> IsConflict err \<longrightarrow>
        updateNodeRetry L client lister nodeName f w =
          Returned ((None, Some (UnableToUpdateNode (format_node (mem w1) node) err)), w1)) \<and>
     (lister nodeName wk = (Inr n, w1) \<and> load (mem w1) n = Some nv \<and>
      json_Marshal L nv = Inl err \<and> \<not> IsConflict err \<longrightarrow>
        updateNodeRetry L client lister nodeName f w =
          Returned ((None, Some (UnableToUpdateNode (format_node (mem w1) node) err)), w1)) \<and>
     (lister nodeName wk = (Inr n, w1) \<and> load (mem w1) n = Some nv \<and>
      json_Marshal L nv = Inr oldNode \<and> DeepCopy (mem w1) n = Returned (nodeClone, h1) \<and>
      f nodeClone h1 = Returned h2 \<and> load h2 nodeClone = Some cv \<and>
      json_Marshal L cv = Inl err \<and> \<not> IsConflict err \<longrightarrow>
        updateNodeRetry L client lister nodeName f w =
          Returned ((None, Some (UnableToUpdateNode (format_node h2 node) err)),
                    w1\<lparr>mem := h2\<rparr>)) \<and>
     (lister nodeName wk = (Inr n, w1) \<and> load (mem w1) n = Some nv \<and>
      json_Marshal L nv = Inr oldNode \<and> DeepCopy (mem w1) n = Returned (nodeClone, h1) \<and>
      f nodeClone h1 = Returned h2 \<and> load h2 nodeClone = Some cv \<and>
      json_Marshal L cv = Inr newNode \<and>
      CreateTwoWayMergePatch L oldNode newNode = Inl err \<longrightarrow>
        updateNodeRetry L client lister nodeName f w =
          Returned ((None, Some (UnableToUpdateNode (format_node h2 node)
                       (FailedToCreatePatch nodeName err))), w1\<lparr>mem := h2\<rparr>)) \<and>
     (lister nodeName wk = (Inr n, w1) \<and> load (mem w1) n = Some nv \<and>
      json_Marshal L nv = Inr oldNode \<and> DeepCopy (mem w1) n = Returned (nodeClone, h1) \<and>
      f nodeClone h1 = Returned h2 \<and> load h2 nodeClone = Some cv \<and>
      json_Marshal L cv = Inr newNode \<and>
      CreateTwoWayMergePatch L oldNode newNode = Inr patchBytes \<and>
      client nodeName patchBytes (w1\<lparr>mem := h2\<rparr>) = ((node', Some err), w2) \<and>
      \<not> IsConflict err \<longrightarrow>
        updateNodeRetry L client lister nodeName f w =
          Returned ((None, Some (UnableToUpdateNode (format_node (mem w2) node') err)), w2))"
proof -
  note stop = updateNodeRetry_attempt_error [OF assms]
  have a: "lister nodeName wk = (Inl err, w1) \<and> \<not> IsConflict err \<longrightarrow>
        updateNodeRetry L client lister nodeName f w =
          Returned ((None, Some (UnableToUpdateNode (format_node (mem w1) node) err)), w1)"
    using stop [OF attempt_lister_error] by blast
  have b: "lister nodeName wk = (Inr n, w1) \<and> load (mem w1) n = Some nv \<and>
      json_Marshal L nv = Inl err \<and> \<not> IsConflict err \<longrightarrow>
        updateNodeRetry L client lister nodeName f w =
          Returned ((None, Some (UnableToUpdateNode (format_node (mem w1) node) err)), w1)"
    using stop [OF attempt_marshal_snapshot_error] by blast
  have c: "lister nodeName wk = (Inr n, w1) \<and> load (mem w1) n = Some nv \<and>
      json_Marshal L nv = Inr oldNode \<and> DeepCopy (mem w1) n = Returned (nodeClone, h1) \<and>
      f nodeClone h1 = Returned h2 \<and> load h2 nodeClone = Some cv \<and>
      json_Marshal L cv = Inl err \<and> \<not> IsConflict err \<longrightarrow>
        updateNodeRetry L client lister nodeName f w =
          Returned ((None, Some (UnableToUpdateNode (format_node h2 node) err)),
                    w1\<lparr>mem := h2\<rparr>)"
    using stop [OF attempt_marshal_copy_error] by auto
  have d: "lister nodeName wk = (Inr n, w1) \<and> load (mem w1) n = Some nv \<and>
      json_Marshal L nv = Inr oldNode \<and> DeepCopy (mem w1) n = Returned (nodeClone, h1) \<and>
      f nodeClone h1 = Returned h2 \<and> load h2 nodeClone = Some cv \<and>
      json_Marshal L cv = Inr newNode \<and>
      CreateTwoWayMergePatch L oldNode newNode = Inl err \<longrightarrow>
        updateNodeRetry L client lister nodeName f w =
          Returned ((None, Some (UnableToUpdateNode (format_node h2 node)
                       (FailedToCreatePatch nodeName err))), w1\<lparr>mem := h2\<rparr>)"
    using stop [OF attempt_patch_error] by auto
  have e: "lister nodeName wk = (Inr n, w1) \<and> load (mem w1) n = Some nv \<and>
      json_Marshal L nv = Inr oldNode \<and> DeepCopy (mem w1) n = Returned (nodeClone, h1) \<and>
      f nodeClone h1 = Returned h2 \<and> load h2 nodeClone = Some cv \<and>
      json_Marshal L cv = Inr newNode \<and>
      CreateTwoWayMergePatch L oldNode newNode = Inr patchBytes \<and>
      client nodeName patchBytes (w1\<lparr>mem := h2\<rparr>) = ((node', Some err), w2) \<and>
      \<not> IsConflict err \<longrightarrow>
        updateNodeRetry L client lister nodeName f w =
          Returned ((None, Some (UnableToUpdateNode (format_node (mem w2) node') err)), w2)"
    using stop [OF attempt_client_error] by blast
  from a b c d e show ?thesis by (intro conjI)
qed

text \<open>
  The theorem on five runs for node-1, one for each source. In the first the API server
  answers the first patch with a conflict and the lister fails in the second attempt: of
  the four answers that the lister had ready, two are left. In the others the first
  attempt fails: on \<^verbatim>\<open>json.Marshal\<close> of the fetched object, on
  \<^verbatim>\<open>json.Marshal\<close> of the mutated copy, on \<^verbatim>\<open>CreateTwoWayMergePatch\<close> (with an
  error that is itself a conflict), where the server has received nothing, and on a
  refusal by the server; three answers of the lister are left.
\<close>

theorem updateNodeRetry_other_error_not_retried_witness:
  "(\<exists>w'. updateNodeRetry symbolic_libs script_client script_lister ''node-1''
       (setNodeAnnotations_func
          [(MachineConfigDaemonStateAnnotationKey, MachineConfigDaemonStateWorking)])
       (scripted heap_one [Inr 0, Inl (OtherError ''cache unavailable''), Inr 0, Inr 0]
          [Some (StatusConflict ''object has been modified'')]) =
       Returned ((None, Some (UnableToUpdateNode
                   (Some \<lparr>vName = [], vResourceVersion = [], vAnnotations = None\<rparr>)
                   (OtherError ''cache unavailable''))), w') \<and>
     gets (ext w') = [Inr 0, Inr 0] \<and> length (received (ext w')) = 1) \<and>
   (\<exists>w'. updateNodeRetry marshal_failing_libs script_client script_lister ''node-1''
       (setNodeAnnotations_func
          [(MachineConfigDaemonStateAnnotationKey, MachineConfigDaemonStateWorking)])
       (scripted heap_nil [Inr 0, Inr 0, Inr 0, Inr 0] []) =
       Returned ((None, Some (UnableToUpdateNode None
                   (OtherError ''json: unsupported value''))), w') \<and>
     gets (ext w') = [Inr 0, Inr 0, Inr 0] \<and> received (ext w') = []) \<and>
   (\<exists>w'. updateNodeRetry marshal_failing_libs script_client script_lister ''node-1''
       (setNodeAnnotations_func
          [(MachineConfigDaemonStateAnnotationKey, MachineConfigDaemonStateWorking)])
       (scripted heap_one [Inr 0, Inr 0, Inr 0, Inr 0] []) =
       Returned ((None, Some (UnableToUpdateNode None
                   (OtherError ''json: unsupported type''))), w') \<and>
     gets (ext w') = [Inr 0, Inr 0, Inr 0] \<and> received (ext w') = []) \<and>
   (\<exists>w'. updateNodeRetry patch_failing_libs script_client script_lister ''node-1''
       (setNodeAnnotations_func
          [(MachineConfigDaemonStateAnnotationKey, MachineConfigDaemonStateWorking)])
       (scripted heap_one [Inr 0, Inr 0, Inr 0, Inr 0] []) =
       Returned ((None, Some (UnableToUpdateNode None
                   (FailedToCreatePatch ''node-1'' (StatusConflict ''precondition failed'')))),
                 w') \<and>
     gets (ext w') = [Inr 0, Inr 0, Inr 0] \<and> received (ext w') = []) \<and>
   (\<exists>w'. updateNodeRetry symbolic_libs script_client script_lister ''node-1''
       (setNodeAnnotations_func
          [(MachineConfigDaemonStateAnnotationKey, MachineConfigDaemonStateWorking)])
       (scripted heap_one [Inr 0, Inr 0, Inr 0, Inr 0] [Some (OtherError ''forbidden'')]) =
       Returned ((None, Some (UnableToUpdateNode
                   (Some \<lparr>vName = [], vResourceVersion = [], vAnnotations = None\<rparr>)
                   (OtherError ''forbidden''))), w') \<and>
     gets (ext w') = [Inr 0, Inr 0, Inr 0] \<and> length (received (ext w')) = 1)"
proof -
  let ?f = "setNodeAnnotations_func
          [(MachineConfigDaemonStateAnnotationKey, MachineConfigDaemonStateWorking)]"
  note run = updateNodeRetry_func_def updateNodeRetry_patch_def load_def DeepCopy_def
    script_lister_def script_client_def symbolic_libs_def marshal_failing_libs_def
    patch_failing_libs_def scripted_def heap_one_def heap_nil_def Let_def nth_append
    format_node_def MachineConfigDaemonStateAnnotationKey_def
  have a: "\<exists>w'. updateNodeRetry symbolic_libs script_client script_lister ''node-1'' ?f
       (scripted heap_one [Inr 0, Inl (OtherError ''cache unavailable''), Inr 0, Inr 0]
          [Some (StatusConflict ''object has been modified'')]) =
       Returned ((None, Some (UnableToUpdateNode
                   (Some \<lparr>vName = [], vResourceVersion = [], vAnnotations = None\<rparr>)
                   (OtherError ''cache unavailable''))), w') \<and>
     gets (ext w') = [Inr 0, Inr 0] \<and> length (received (ext w')) = 1"
  proof -
    let ?W = "scripted heap_one [Inr 0, Inl (OtherError ''cache unavailable''), Inr 0, Inr 0]
          [Some (StatusConflict ''object has been modified'')]
            :: (NodeValue \<times> NodeValue) script world"
    have "\<exists>e node wk w1.
            conflicts (Suc 0)
              (updateNodeRetry_func symbolic_libs script_client script_lister ''node-1'' ?f)
              None (None, ?W) = Some (e, node, wk) \<and>
            script_lister ''node-1'' wk = (Inl (OtherError ''cache unavailable''), w1) \<and>
            format_node (mem w1) node =
              Some \<lparr>vName = [], vResourceVersion = [], vAnnotations = None\<rparr> \<and>
            gets (ext w1) = [Inr 0, Inr 0] \<and> length (received (ext w1)) = 1"
      by (simp add: run)
    then obtain e node wk w1 where
      1: "conflicts (Suc 0)
              (updateNodeRetry_func symbolic_libs script_client script_lister ''node-1'' ?f)
              None (None, ?W) = Some (e, node, wk)" and
      2: "script_lister ''node-1'' wk = (Inl (OtherError ''cache unavailable''), w1)" and
      3: "format_node (mem w1) node =
              Some \<lparr>vName = [], vResourceVersion = [], vAnnotations = None\<rparr>" and
      4: "gets (ext w1) = [Inr 0, Inr 0]" "length (received (ext w1)) = 1"
      by (elim exE conjE)
    have 5: "Suc 0 < DefaultBackoff_Steps symbolic_libs"
      by (simp add: symbolic_libs_def)
    from updateNodeRetry_other_error_not_retried [OF 5 1, THEN conjunct1, rule_format,
        of "OtherError ''cache unavailable''" w1] 2 3 4
    show ?thesis by simp
  qed
  have steps: "0 < DefaultBackoff_Steps marshal_failing_libs"
    "0 < DefaultBackoff_Steps patch_failing_libs" "0 < DefaultBackoff_Steps symbolic_libs"
    by (simp_all add: marshal_failing_libs_def patch_failing_libs_def symbolic_libs_def)
  have b: "\<exists>w'. updateNodeRetry marshal_failing_libs script_client script_lister ''node-1'' ?f
       (scripted heap_nil [Inr 0, Inr 0, Inr 0, Inr 0] []) =
       Returned ((None, Some (UnableToUpdateNode None
                   (OtherError ''json: unsupported value''))), w') \<and>
     gets (ext w') = [Inr 0, Inr 0, Inr 0] \<and> received (ext w') = []"
  proof -
    let ?W = "scripted heap_nil [Inr 0, Inr 0, Inr 0, Inr 0] []
            :: (NodeValue \<times> NodeValue) script world"
    have 1: "conflicts 0
              (updateNodeRetry_func marshal_failing_libs script_client script_lister ''node-1'' ?f)
              None (None, ?W) = Some (None, None, ?W)"
      by simp
    have "\<exists>n w1 nv.
            script_lister ''node-1'' ?W = (Inr n, w1) \<and> load (mem w1) n = Some nv \<and>
            json_Marshal marshal_failing_libs nv = Inl (OtherError ''json: unsupported value'') \<and>
            gets (ext w1) = [Inr 0, Inr 0, Inr 0] \<and> received (ext w1) = []"
      by (simp add: run)
    then obtain n w1 nv where
      2: "script_lister ''node-1'' ?W = (Inr n, w1)" "load (mem w1) n = Some nv"
         "json_Marshal marshal_failing_libs nv = Inl (OtherError ''json: unsupported value'')" and
      3: "gets (ext w1) = [Inr 0, Inr 0, Inr 0]" "received (ext w1) = []"
      by (elim exE conjE)
    from updateNodeRetry_other_error_not_retried [OF steps(1) 1, THEN conjunct2,
        THEN conjunct1, rule_format, of n w1 nv "OtherError ''json: unsupported value''"] 2 3
    show ?thesis by (simp add: format_node_def)
  qed
  have c: "\<exists>w'. updateNodeRetry marshal_failing_libs script_client script_lister ''node-1'' ?f
       (scripted heap_one [Inr 0, Inr 0, Inr 0, Inr 0] []) =
       Returned ((None, Some (UnableToUpdateNode None
                   (OtherError ''json: unsupported type''))), w') \<and>
     gets (ext w') = [Inr 0, Inr 0, Inr 0] \<and> received (ext w') = []"
  proof -
    let ?W = "scripted heap_one [Inr 0, Inr 0, Inr 0, Inr 0] []
            :: (NodeValue \<times> NodeValue) script world"
    have 1: "conflicts 0
              (updateNodeRetry_func marshal_failing_libs script_client script_lister ''node-1'' ?f)
              None (None, ?W) = Some (None, None, ?W)"
      by simp
    have "\<exists>n w1 nv oldNode nodeClone h1 h2 cv.
            script_lister ''node-1'' ?W = (Inr n, w1) \<and> load (mem w1) n = Some nv \<and>
            json_Marshal marshal_failing_libs nv = Inr oldNode \<and>
            DeepCopy (mem w1) n = Returned (nodeClone, h1) \<and> ?f nodeClone h1 = Returned h2 \<and>
            load h2 nodeClone = Some cv \<and>
            json_Marshal marshal_failing_libs cv = Inl (OtherError ''json: unsupported type'') \<and>
            gets (ext w1) = [Inr 0, Inr 0, Inr 0] \<and> received (ext w1) = []"
      by (simp add: run)
    then obtain n w1 nv oldNode nodeClone h1 h2 cv where
      2: "script_lister ''node-1'' ?W = (Inr n, w1)" "load (mem w1) n = Some nv"
         "json_Marshal marshal_failing_libs nv = Inr oldNode"
         "DeepCopy (mem w1) n = Returned (nodeClone, h1)" "?f nodeClone h1 = Returned h2"
         "load h2 nodeClone = Some cv"
         "json_Marshal marshal_failing_libs cv = Inl (OtherError ''json: unsupported type'')" and
      3: "gets (ext w1) = [Inr 0, Inr 0, Inr 0]" "received (ext w1) = []"
      by (elim exE conjE)
    from updateNodeRetry_other_error_not_retried [OF steps(1) 1, THEN conjunct2,
        THEN conjunct2, THEN conjunct1, rule_format,
        of n w1 nv oldNode nodeClone h1 h2 cv "OtherError ''json: unsupported type''"] 2 3
    show ?thesis by (simp add: format_node_def)
  qed
  have d: "\<exists>w'. updateNodeRetry patch_failing_libs script_client script_lister ''node-1'' ?f
       (scripted heap_one [Inr 0, Inr 0, Inr 0, Inr 0] []) =
       Returned ((None, Some (UnableToUpdateNode None
                   (FailedToCreatePatch ''node-1'' (StatusConflict ''precondition failed'')))),
                 w') \<and>
     gets (ext w') = [Inr 0, Inr 0, Inr 0] \<and> received (ext w') = []"
  proof -
    let ?W = "scripted heap_one [Inr 0, Inr 0, Inr 0, Inr 0] []
            :: (NodeValue \<times> NodeValue) script world"
    have 1: "conflicts 0
              (updateNodeRetry_func patch_failing_libs script_client script_lister ''node-1'' ?f)
              None (None, ?W) = Some (None, None, ?W)"
      by simp
    have "\<exists>n w1 nv oldNode nodeClone h1 h2 cv newNode.
            script_lister ''node-1'' ?W = (Inr n, w1) \<and> load (mem w1) n = Some nv \<and>
            json_Marshal patch_failing_libs nv = Inr oldNode \<and>
            DeepCopy (mem w1) n = Returned (nodeClone, h1) \<and> ?f nodeClone h1 = Returned h2 \<and>
            load h2 nodeClone = Some cv \<and>
            json_Marshal patch_failing_libs cv = Inr newNode \<and>
            CreateTwoWayMergePatch patch_failing_libs oldNode newNode =
              Inl (StatusConflict ''precondition failed'') \<and>
            gets (ext w1) = [Inr 0, Inr 0, Inr 0] \<and> received (ext w1) = []"
      by (simp add: run)
    then obtain n w1 nv oldNode nodeClone h1 h2 cv newNode where
      2: "script_lister ''node-1'' ?W = (Inr n, w1)" "load (mem w1) n = Some nv"
         "json_Marshal patch_failing_libs nv = Inr oldNode"
         "DeepCopy (mem w1) n = Returned (nodeClone, h1)" "?f nodeClone h1 = Returned h2"
         "load h2 nodeClone = Some cv"
         "json_Marshal patch_failing_libs cv = Inr newNode"
         "CreateTwoWayMergePatch patch_failing_libs oldNode newNode =
              Inl (StatusConflict ''precondition failed'')" and
      3: "gets (ext w1) = [Inr 0, Inr 0, Inr 0]" "received (ext w1) = []"
      by (elim exE conjE)
    from updateNodeRetry_other_error_not_retried [OF steps(2) 1, THEN conjunct2,
        THEN conjunct2, THEN conjunct2, THEN conjunct1, rule_format,
        of n w1 nv oldNode nodeClone h1 h2 cv newNode "StatusConflict ''precondition failed''"]
      2 3
    show ?thesis by (simp add: format_node_def)
  qed
  have e: "\<exists>w'. updateNodeRetry symbolic_libs script_client script_lister ''node-1'' ?f
       (scripted heap_one [Inr 0, Inr 0, Inr 0, Inr 0] [Some (OtherError ''forbidden'')]) =
       Returned ((None, Some (UnableToUpdateNode
                   (Some \<lparr>vName = [], vResourceVersion = [], vAnnotations = None\<rparr>)
                   (OtherError ''forbidden''))), w') \<and>
     gets (ext w') = [Inr 0, Inr 0, Inr 0] \<and> length (received (ext w')) = 1"
  proof -
    let ?W = "scripted heap_one [Inr 0, Inr 0, Inr 0, Inr 0] [Some (OtherError ''forbidden'')]
            :: (NodeValue \<times> NodeValue) script world"
    have 1: "conflicts 0
              (updateNodeRetry_func symbolic_libs script_client script_lister ''node-1'' ?f)
              None (None, ?W) = Some (None, None, ?W)"
      by simp
    have "\<exists>n w1 nv oldNode nodeClone h1 h2 cv newNode patchBytes node' w2.
            script_lister ''node-1'' ?W = (Inr n, w1) \<and> load (mem w1) n = Some nv \<and>
            json_Marshal symbolic_libs nv = Inr oldNode \<and>
            DeepCopy (mem w1) n = Returned (nodeClone, h1) \<and> ?f nodeClone h1 = Returned h2 \<and>
            load h2 nodeClone = Some cv \<and>
            json_Marshal symbolic_libs cv = Inr newNode \<and>
            CreateTwoWayMergePatch symbolic_libs oldNode newNode = Inr patchBytes \<and>
            script_client ''node-1'' patchBytes (w1\<lparr>mem := h2\<rparr>) =
              ((node', Some (OtherError ''forbidden'')), w2) \<and>
            format_node (mem w2) node' =
              Some \<lparr>vName = [], vResourceVersion = [], vAnnotations = None\<rparr> \<and>
            gets (ext w2) = [Inr 0, Inr 0, Inr 0] \<and> length (received (ext w2)) = 1"
      by (simp add: run)
    then obtain n w1 nv oldNode nodeClone h1 h2 cv newNode patchBytes node' w2 where
      2: "script_lister ''node-1'' ?W = (Inr n, w1)" "load (mem w1) n = Some nv"
         "json_Marshal symbolic_libs nv = Inr oldNode"
         "DeepCopy (mem w1) n = Returned (nodeClone, h1)" "?f nodeClone h1 = Returned h2"
         "load h2 nodeClone = Some cv"
         "json_Marshal symbolic_libs cv = Inr newNode"
         "CreateTwoWayMergePatch symbolic_libs oldNode newNode = Inr patchBytes"
         "script_client ''node-1'' patchBytes (w1\<lparr>mem := h2\<rparr>) =
              ((node', Some (OtherError ''forbidden'')), w2)" and
      3: "format_node (mem w2) node' =
              Some \<lparr>vName = [], vResourceVersion = [], vAnnotations = None\<rparr>"
         "gets (ext w2) = [Inr 0, Inr 0, Inr 0]" "length (received (ext w2)) = 1"
      by (elim exE conjE)
    from updateNodeRetry_other_error_not_retried [OF steps(3) 1, THEN conjunct2,
        THEN conjunct2, THEN conjunct2, THEN conjunct2, rule_format,
        of n w1 nv oldNode nodeClone h1 h2 cv newNode patchBytes node'
          "OtherError ''forbidden''" w2] 2 3
    show ?thesis by simp
  qed
  from a b c d e show ?thesis by (intro conjI)
qed

section \<open>The error after the last attempt\<close>

text \<open>
  When every attempt that the limit allows has ended in a conflict,
  \<^verbatim>\<open>updateNodeRetry\<close> returns a nil node and an error that carries the last conflict
  error and, as the argument of \<^verbatim>\<open>%q\<close>, the object behind the variable
  \<^verbatim>\<open>node\<close>.
\<close>

lemma conflicts_last:
  "conflicts k fn e s = Some (e', s') \<Longrightarrow> 0 < k \<Longrightarrow> \<exists>err. e' = Some err \<and> IsConflict err"
proof (induction k arbitrary: e s)
  case 0
  then show ?case by simp
next
  case (Suc k)
  then show ?case
    by (cases k) (auto split: exec.splits option.splits if_splits)
qed

lemma updateNodeRetry_exhausted:
  assumes "0 < DefaultBackoff_Steps L"
    and "conflicts (DefaultBackoff_Steps L) (updateNodeRetry_func L client lister nodeName f)
           None (None, w) = Some (e, node, w')"
  shows "\<exists>err. e = Some err \<and> IsConflict err \<and>
           updateNodeRetry L client lister nodeName f w =
             Returned ((None, Some (UnableToUpdateNode (format_node (mem w') node) err)), w')"
proof -
  from conflicts_last [OF assms(2,1)] obtain err where err: "e = Some err" "IsConflict err"
    by blast
  have "RetryOnConflict (DefaultBackoff_Steps L)
          (updateNodeRetry_func L client lister nodeName f) (None, w) =
        Returned (Some err, node, w')"
    using conflicts_RetryOnConflict_loop [OF assms(2), of 0] err
    by (simp add: RetryOnConflict_def)
  then show ?thesis using err by (simp add: updateNodeRetry_def)
qed

text \<open>
  Claim C3. The error returned when the attempt limit is exhausted is to identify the node
  by its name. The argument that line 188 formats is the pointer \<^verbatim>\<open>node\<close>, the result
  of the last call of the client, where line 181 formats \<^verbatim>\<open>nodeName\<close>. With an API
  server that answers all four attempts with a conflict, the error returned for node-1 carries
  the empty object of the failed call and the last conflict error, and it is the very error
  returned for node-2 on the same answers: the name is not in it.
\<close>

theorem updateNodeRetry_exhausted_error_without_name:
  "\<exists>w1 w2.
     updateNodeRetry symbolic_libs script_client script_lister ''node-1''
       (setNodeAnnotations_func
          [(MachineConfigDaemonStateAnnotationKey, MachineConfigDaemonStateWorking)])
       (scripted heap_one [Inr 0, Inr 0, Inr 0, Inr 0]
          [Some (StatusConflict ''c1''), Some (StatusConflict ''c2''),
           Some (StatusConflict ''c3''), Some (StatusConflict ''c4'')]) =
       Returned ((None,
         Some (UnableToUpdateNode
                 (Some \<lparr>vName = [], vResourceVersion = [], vAnnotations = None\<rparr>)
                 (StatusConflict ''c4''))), w1) \<and>
     updateNodeRetry symbolic_libs script_client script_lister ''node-2''
       (setNodeAnnotations_func
          [(MachineConfigDaemonStateAnnotationKey, MachineConfigDaemonStateWorking)])
       (scripted heap_other [Inr 0, Inr 0, Inr 0, Inr 0]
          [Some (StatusConflict ''c1''), Some (StatusConflict ''c2''),
           Some (StatusConflict ''c3''), Some (StatusConflict ''c4'')]) =
       Returned ((None,
         Some (UnableToUpdateNode
                 (Some \<lparr>vName = [], vResourceVersion = [], vAnnotations = None\<rparr>)
                 (StatusConflict ''c4''))), w2)"
  by (simp add: updateNodeRetry_def RetryOnConflict_def eval_nat_numeral updateNodeRetry_func_def
      updateNodeRetry_patch_def load_def DeepCopy_def script_lister_def script_client_def
      symbolic_libs_def scripted_def heap_one_def heap_other_def Let_def nth_append
      format_node_def)

section \<open>The loop and the callers\<close>



lemma Run_serves_request:
  assumes "writer s = msg # queued"
    and "setNodeAnnotations L (msg_client msg) (msg_lister msg) (msg_node msg) (msg_annos msg)
           (world s) = Returned ((node, err), w)"
    and "msg_responseChannel msg < length (chans s)"
    and "chans s ! msg_responseChannel msg = []"
  shows "Run L (case_writer # sched) s =
           Run L sched (s\<lparr>world := w, writer := queued,
                          chans := (chans s)[msg_responseChannel msg := [err]]\<rparr>)"
  using assms by (simp add: chan_send_def)








text \<open>The equations that evaluate a run in the scripted environment.\<close>

lemmas concrete_run =
  send_and_receive_def make_chan_def writer_send_def defaultWriterQueue_def chan_send_def
  chan_recv_def idle_def setNodeAnnotations_def updateNodeRetry_def RetryOnConflict_def
  eval_nat_numeral updateNodeRetry_func_def updateNodeRetry_patch_def load_def DeepCopy_def
  script_lister_def script_client_def symbolic_libs_def scripted_def heap_one_def heap_nil_def
  Let_def nth_append format_node_def

section \<open>A panic of the update ends the loop\<close>

text \<open>
  Claim C4. Every request that the loop dequeues is to get exactly one error value on its
  response channel, after which the loop waits for the next request. That holds for a
  request whose update returns (\<open>Run_serves_request\<close>). It fails for a request whose
  update panics, which nothing recovers from: with two requests queued, the first for a node
  whose annotation map is nil, the loop ends in its first iteration, both response channels
  stay empty and the second request stays in the queue; a caller of \<^verbatim>\<open>SetWorking\<close> for
  such a node never gets an answer, the process has died.
\<close>

theorem Run_panics_on_nil_annotation_map:
  "\<exists>s'.
     Run symbolic_libs [case_writer, case_writer]
       (sent script_client script_lister ''node-2''
          [(MachineConfigDaemonStateAnnotationKey, MachineConfigDaemonStateWorking)]
          (sent script_client script_lister ''node-1''
             [(MachineConfigDaemonStateAnnotationKey, MachineConfigDaemonStateWorking)]
             (idle (scripted heap_nil [Inr 0, Inr 0] [])))) = (Crashed NilMapAssignment, s') \<and>
     chans s' = [[], []] \<and> map msg_node (writer s') = [''node-2''] \<and>
     SetWorking symbolic_libs [case_writer] script_client script_lister ''node-1''
       (idle (scripted heap_nil [Inr 0] [])) = Died NilMapAssignment"
  by (simp add: SetWorking_def sent_def concrete_run)

section \<open>\<^verbatim>\<open>SetUnreconcilable\<close> and \<^verbatim>\<open>SetDegraded\<close>\<close>



section \<open>A successful update\<close>



lemma updateNodeRetry_patch_Inr:
  assumes "mutates_as f g" and "updateNodeRetry_patch L nodeName f n h = Returned (Inr p, h')"
  shows "\<exists>nv cv oldNode newNode. load h n = Some nv \<and> g nv = Returned cv \<and>
           json_Marshal L nv = Inr oldNode \<and> json_Marshal L cv = Inr newNode \<and>
           CreateTwoWayMergePatch L oldNode newNode = Inr p"
proof -
  from assms(2) obtain nv where nv: "load h n = Some nv"
    by (auto simp: updateNodeRetry_patch_def split: option.splits)
  from assms(2) nv obtain oldNode where old: "json_Marshal L nv = Inr oldNode"
    by (auto simp: updateNodeRetry_patch_def split: sum.splits)
  from DeepCopy_Returned [OF nv] obtain h1 where
    h1: "DeepCopy h n = Returned (length (nodes h), h1)" "load h1 (length (nodes h)) = Some nv"
    by blast
  from assms(2) nv old h1(1) obtain h2 where h2: "f (length (nodes h)) h1 = Returned h2"
    by (auto simp: updateNodeRetry_patch_def split: exec.splits)
  from assms(1) h1(2) h2 obtain cv where cv: "g nv = Returned cv" "load h2 (length (nodes h)) = Some cv"
    unfolding mutates_as_def by blast
  from assms(2) nv old h1(1) h2 cv(2) obtain newNode where
    "json_Marshal L cv = Inr newNode" "CreateTwoWayMergePatch L oldNode newNode = Inr p"
    by (auto simp: updateNodeRetry_patch_def split: sum.splits)
  with nv old cv(1) show ?thesis by blast
qed

lemma setNodeAnnotations_func_mutates_as: "mutates_as (setNodeAnnotations_func m) (annotate m)"
  unfolding mutates_as_def
proof (intro allI impI)
  fix h p nv h'
  assume a: "load h p = Some nv \<and> setNodeAnnotations_func m p h = Returned h'"
  show "\<exists>cv. annotate m nv = Returned cv \<and> load h' p = Some cv"
  proof (cases "m = []")
    case True
    with a show ?thesis by (auto simp: annotate_def)
  next
    case False
    show ?thesis
    proof (cases "vAnnotations nv")
      case None
      with a have "p < length (nodes h)" "Annotations (nodes h ! p) = None"
        by (auto dest!: load_Some_cases split: option.splits)
      from setNodeAnnotations_func_nil [OF False this] a show ?thesis by simp
    next
      case (Some an)
      from setNodeAnnotations_func_load [OF conjunct1 [OF a] Some, of m] a Some False
      show ?thesis by (simp add: annotate_def)
    qed
  qed
qed








section \<open>\<^verbatim>\<open>SetDone\<close>\<close>




section \<open>\<^verbatim>\<open>SetSSHAccessed\<close>\<close>






section \<open>Every attempt fetches and recomputes\<close>

text \<open>
  An attempt run with a recording lister and client appends to the record either one fetch,
  or one fetch and one patch, the patch being the one that belongs to the object fetched;
  and the recording changes nothing else.
\<close>

lemma recomputed_Get:
  "recomputed L g name tr \<Longrightarrow> recomputed L g name (tr @ [Get name r])"
  by (induction L g name tr rule: recomputed.induct) auto

lemma recomputed_Get_Patch:
  "recomputed L g name tr \<Longrightarrow> patch_for L g nv = Some p \<Longrightarrow>
     recomputed L g name (tr @ [Get name (Inr (Some nv)), Patch name p])"
  by (induction L g name tr rule: recomputed.induct) auto

lemma logged_attempt:
  assumes "mutates_as f g"
    and "updateNodeRetry_func L (logged_client client) (logged_lister lister) nodeName f (node, w) =
           Returned (e, node', w')"
  shows "(\<exists>r. snd (ext w') = snd (ext w) @ [Get nodeName r]) \<or>
         (\<exists>nv p. snd (ext w') = snd (ext w) @ [Get nodeName (Inr (Some nv)), Patch nodeName p] \<and>
                 patch_for L g nv = Some p)"
proof -
  obtain r w1 where get: "logged_lister lister nodeName w = (r, w1)"
    by (cases "logged_lister lister nodeName w")
  then have log1: "snd (ext w1) = snd (ext w) @
      [Get nodeName (case r of Inl err \<Rightarrow> Inl err | Inr n \<Rightarrow> Inr (load (mem w1) n))]"
    by (auto simp: logged_lister_def split: prod.splits sum.splits)
  show ?thesis
  proof (cases r)
    case (Inl err)
    with assms(2) get have "w' = w1"
      by (simp add: updateNodeRetry_func_def)
    with log1 show ?thesis by blast
  next
    case (Inr n)
    from assms(2) get Inr obtain res h where
      patch: "updateNodeRetry_patch L nodeName f n (mem w1) = Returned (res, h)"
      by (auto simp: updateNodeRetry_func_def split: exec.splits)
    show ?thesis
    proof (cases res)
      case (Inl err)
      with assms(2) get Inr patch have "w' = w1\<lparr>mem := h\<rparr>"
        by (simp add: updateNodeRetry_func_def)
      with log1 show ?thesis by auto
    next
      case (Inr p)
      from updateNodeRetry_patch_Inr [OF assms(1) patch [unfolded Inr]]
      obtain nv where nv: "load (mem w1) n = Some nv" "patch_for L g nv = Some p"
        by (auto simp: patch_for_def)
      from assms(2) get \<open>r = Inr n\<close> patch Inr
      have "logged_client client nodeName p (w1\<lparr>mem := h\<rparr>) = ((node', e), w')"
        by (simp add: updateNodeRetry_func_def split: prod.splits)
      then have "snd (ext w') = snd (ext w1) @ [Patch nodeName p]"
        by (auto simp: logged_client_def split: prod.splits)
      with log1 \<open>r = Inr n\<close> nv show ?thesis by simp
    qed
  qed
qed

lemma logged_attempt_recomputed:
  assumes "mutates_as f g"
    and "updateNodeRetry_func L (logged_client client) (logged_lister lister) nodeName f (node, w) =
           Returned (e, node', w')"
    and "recomputed L g nodeName (snd (ext w))"
  shows "recomputed L g nodeName (snd (ext w')) \<and>
         length (filter is_Get (snd (ext w'))) = Suc (length (filter is_Get (snd (ext w))))"
  using logged_attempt [OF assms(1,2)] assms(3)
  by (auto simp: recomputed_Get recomputed_Get_Patch)

lemma logged_loop_recomputed:
  assumes "mutates_as f g"
  shows "RetryOnConflict_loop k
           (updateNodeRetry_func L (logged_client client) (logged_lister lister) nodeName f)
           e0 (node, w) = Returned (e, node', w') \<Longrightarrow>
         recomputed L g nodeName (snd (ext w)) \<Longrightarrow>
         recomputed L g nodeName (snd (ext w'))"
proof (induction k arbitrary: e0 node w)
  case 0
  then show ?case by simp
next
  case (Suc k)
  let ?fn = "updateNodeRetry_func L (logged_client client) (logged_lister lister) nodeName f"
  from Suc.prems(1) obtain e1 node1 w1 where a: "?fn (node, w) = Returned (e1, node1, w1)"
    by (cases "?fn (node, w)") auto
  from logged_attempt_recomputed [OF assms a Suc.prems(2)]
  have r1: "recomputed L g nodeName (snd (ext w1))" by simp
  show ?case
  proof (cases e1)
    case None
    with Suc.prems(1) a r1 show ?thesis by simp
  next
    case (Some err)
    show ?thesis
    proof (cases "IsConflict err")
      case True
      with Suc.prems(1) a Some
      have "RetryOnConflict_loop k ?fn (Some err) (node1, w1) = Returned (e, node', w')"
        by simp
      from Suc.IH [OF this r1] show ?thesis .
    next
      case False
      with Suc.prems(1) a Some r1 show ?thesis by simp
    qed
  qed
qed

lemma logged_conflicts_recomputed:
  assumes "mutates_as f g"
  shows "conflicts k
           (updateNodeRetry_func L (logged_client client) (logged_lister lister) nodeName f)
           e0 (node, w) = Some (e, node', w') \<Longrightarrow>
         recomputed L g nodeName (snd (ext w)) \<Longrightarrow>
         recomputed L g nodeName (snd (ext w')) \<and>
         length (filter is_Get (snd (ext w'))) = length (filter is_Get (snd (ext w))) + k"
proof (induction k arbitrary: e0 node w)
  case 0
  then show ?case by simp
next
  case (Suc k)
  let ?fn = "updateNodeRetry_func L (logged_client client) (logged_lister lister) nodeName f"
  from Suc.prems(1) obtain err node1 w1 where a: "?fn (node, w) = Returned (Some err, node1, w1)"
    and c: "conflicts k ?fn (Some err) (node1, w1) = Some (e, node', w')"
    by (auto split: exec.splits option.splits if_splits)
  from logged_attempt_recomputed [OF assms a Suc.prems(2)]
  have r1: "recomputed L g nodeName (snd (ext w1))"
    "length (filter is_Get (snd (ext w1))) = Suc (length (filter is_Get (snd (ext w))))"
    by simp_all
  from Suc.IH [OF c r1(1)] r1(2) show ?case by simp
qed

lemma world_mem_update: "(w :: 'x world)\<lparr>mem := b\<rparr> = \<lparr>mem = b, ext = ext w\<rparr>"
  by (cases w) simp

lemma logged_attempt_simulates:
  "(\<exists>p. updateNodeRetry_func L (logged_client client) (logged_lister lister) nodeName f (node, w) =
          Panicked p \<and>
        updateNodeRetry_func L client lister nodeName f (node, unlogged w) = Panicked p) \<or>
   (\<exists>e node' w'.
        updateNodeRetry_func L (logged_client client) (logged_lister lister) nodeName f (node, w) =
          Returned (e, node', w') \<and>
        updateNodeRetry_func L client lister nodeName f (node, unlogged w) =
          Returned (e, node', unlogged w'))"
  by (auto simp: updateNodeRetry_func_def logged_lister_def logged_client_def unlogged_def
      world_mem_update split: prod.splits sum.splits exec.splits)

lemma logged_loop_simulates:
  "(\<exists>p. RetryOnConflict_loop k
          (updateNodeRetry_func L (logged_client client) (logged_lister lister) nodeName f)
          e0 (node, w) = Panicked p \<and>
        RetryOnConflict_loop k (updateNodeRetry_func L client lister nodeName f)
          e0 (node, unlogged w) = Panicked p) \<or>
   (\<exists>e node' w'.
        RetryOnConflict_loop k
          (updateNodeRetry_func L (logged_client client) (logged_lister lister) nodeName f)
          e0 (node, w) = Returned (e, node', w') \<and>
        RetryOnConflict_loop k (updateNodeRetry_func L client lister nodeName f)
          e0 (node, unlogged w) = Returned (e, node', unlogged w'))"
proof (induction k arbitrary: e0 node w)
  case 0
  then show ?case by simp
next
  case (Suc k)
  from logged_attempt_simulates [of L client lister nodeName f node w]
  show ?case
  proof (elim disjE exE conjE)
    fix p
    assume "updateNodeRetry_func L (logged_client client) (logged_lister lister) nodeName f
              (node, w) = Panicked p"
      "updateNodeRetry_func L client lister nodeName f (node, unlogged w) = Panicked p"
    then show ?thesis by simp
  next
    fix e node' w'
    assume a: "updateNodeRetry_func L (logged_client client) (logged_lister lister) nodeName f
              (node, w) = Returned (e, node', w')"
      "updateNodeRetry_func L client lister nodeName f (node, unlogged w) =
         Returned (e, node', unlogged w')"
    show ?thesis
    proof (cases e)
      case None
      with a show ?thesis by simp
    next
      case (Some err)
      show ?thesis
      proof (cases "IsConflict err")
        case True
        with a Some Suc.IH [of "Some err" node' w'] show ?thesis by simp
      next
        case False
        with a Some show ?thesis by simp
      qed
    qed
  qed
qed

lemma logged_updateNodeRetry_simulates:
  "(\<exists>p. updateNodeRetry L (logged_client client) (logged_lister lister) nodeName f w =
          Panicked p \<and>
        updateNodeRetry L client lister nodeName f (unlogged w) = Panicked p) \<or>
   (\<exists>r w'. updateNodeRetry L (logged_client client) (logged_lister lister) nodeName f w =
          Returned (r, w') \<and>
        updateNodeRetry L client lister nodeName f (unlogged w) = Returned (r, unlogged w'))"
  using logged_loop_simulates [of "DefaultBackoff_Steps L" L client lister nodeName f None None w]
  by (elim disjE exE conjE)
    (auto simp: updateNodeRetry_def RetryOnConflict_def unlogged_def split: option.splits)

text \<open>
  Claim C1. Let the mutation act on objects as \<open>g\<close>, and let the lister and the client
  record their calls. When \<^verbatim>\<open>updateNodeRetry\<close> returns, every patch in the record
  directly follows a fetch of the node and is the difference between the serialisation of
  the object that this fetch handed out and the serialisation of the result of \<open>g\<close> on that
  object: no patch is submitted without a fetch of its own, none is taken over from an
  earlier attempt. The same holds for the record after \<open>k\<close> attempts that ended in a
  conflict, which holds exactly \<open>k\<close> fetches: one for each attempt. The recording does not
  change the run, which returns what it returns with the lister and the client themselves.
\<close>

theorem updateNodeRetry_recomputes_every_attempt:
  assumes "mutates_as f g"
  shows "(updateNodeRetry L (logged_client client) (logged_lister lister) nodeName f
            \<lparr>mem = h, ext = (x, [])\<rparr> = Returned (r, w') \<longrightarrow>
          recomputed L g nodeName (snd (ext w'))) \<and>
         (conflicts k
            (updateNodeRetry_func L (logged_client client) (logged_lister lister) nodeName f)
            None (None, \<lparr>mem = h, ext = (x, [])\<rparr>) = Some (e, node, wk) \<longrightarrow>
          recomputed L g nodeName (snd (ext wk)) \<and>
          length (filter is_Get (snd (ext wk))) = k) \<and>
         ((\<exists>p. updateNodeRetry L (logged_client client) (logged_lister lister) nodeName f
                 \<lparr>mem = h, ext = (x, [])\<rparr> = Panicked p \<and>
               updateNodeRetry L client lister nodeName f \<lparr>mem = h, ext = x\<rparr> = Panicked p) \<or>
          (\<exists>r w'. updateNodeRetry L (logged_client client) (logged_lister lister) nodeName f
                 \<lparr>mem = h, ext = (x, [])\<rparr> = Returned (r, w') \<and>
               updateNodeRetry L client lister nodeName f \<lparr>mem = h, ext = x\<rparr> =
                 Returned (r, unlogged w')))"
proof (intro conjI impI)
  let ?fn = "updateNodeRetry_func L (logged_client client) (logged_lister lister) nodeName f"
  let ?w = "\<lparr>mem = h, ext = (x, [])\<rparr>"
  have init: "recomputed L g nodeName (snd (ext ?w))" by simp
  {
    assume "updateNodeRetry L (logged_client client) (logged_lister lister) nodeName f ?w =
              Returned (r, w')"
    then obtain e1 node1 where
      "RetryOnConflict_loop (DefaultBackoff_Steps L) ?fn None (None, ?w) = Returned (e1, node1, w')"
      by (auto simp: updateNodeRetry_def RetryOnConflict_def
          split: exec.splits option.splits prod.splits)
    from logged_loop_recomputed [OF assms this init]
    show "recomputed L g nodeName (snd (ext w'))" .
  }
  {
    assume "conflicts k ?fn None (None, ?w) = Some (e, node, wk)"
    from logged_conflicts_recomputed [OF assms this init]
    show "recomputed L g nodeName (snd (ext wk))"
      and "length (filter is_Get (snd (ext wk))) = k"
      by simp_all
  }
  show "(\<exists>p. updateNodeRetry L (logged_client client) (logged_lister lister) nodeName f ?w =
               Panicked p \<and>
             updateNodeRetry L client lister nodeName f \<lparr>mem = h, ext = x\<rparr> = Panicked p) \<or>
        (\<exists>r w'. updateNodeRetry L (logged_client client) (logged_lister lister) nodeName f ?w =
               Returned (r, w') \<and>
             updateNodeRetry L client lister nodeName f \<lparr>mem = h, ext = x\<rparr> =
               Returned (r, unlogged w'))"
    using logged_updateNodeRetry_simulates [of L client lister nodeName f ?w]
    by (simp add: unlogged_def)
qed

text \<open>
  The theorem on a run of two attempts in which the cache changes between them: the API
  server answers the first patch with a conflict and accepts the second, the lister hands
  out the object of version 7 first and the object of version 8 then. The calls are fetch,
  patch, fetch, patch, and the second patch starts from the object of version 8.
\<close>

theorem updateNodeRetry_recomputes_every_attempt_witness:
  "\<exists>r w' oldNode newNode e node wk.
     updateNodeRetry symbolic_libs (logged_client script_client) (logged_lister script_lister)
       ''node-1''
       (setNodeAnnotations_func
          [(MachineConfigDaemonStateAnnotationKey, MachineConfigDaemonStateWorking)])
       \<lparr>mem = heap_two,
        ext = (\<lparr>gets = [Inr 0, Inr 1],
                replies = [Some (StatusConflict ''object has been modified''), None],
                received = []\<rparr>, [])\<rparr> = Returned (r, w') \<and>
     map is_Get (snd (ext w')) = [True, False, True, False] \<and>
     last (snd (ext w')) = Patch ''node-1'' (oldNode, newNode) \<and>
     vResourceVersion oldNode = ''8'' \<and>
     recomputed symbolic_libs
       (annotate [(MachineConfigDaemonStateAnnotationKey, MachineConfigDaemonStateWorking)])
       ''node-1'' (snd (ext w')) \<and>
     conflicts (Suc 0)
       (updateNodeRetry_func symbolic_libs (logged_client script_client)
          (logged_lister script_lister) ''node-1''
          (setNodeAnnotations_func
             [(MachineConfigDaemonStateAnnotationKey, MachineConfigDaemonStateWorking)]))
       None
       (None,
        \<lparr>mem = heap_two,
         ext = (\<lparr>gets = [Inr 0, Inr 1],
                 replies = [Some (StatusConflict ''object has been modified''), None],
                 received = []\<rparr>, [])\<rparr>) = Some (e, node, wk) \<and>
     recomputed symbolic_libs
       (annotate [(MachineConfigDaemonStateAnnotationKey, MachineConfigDaemonStateWorking)])
       ''node-1'' (snd (ext wk)) \<and>
     length (filter is_Get (snd (ext wk))) = Suc 0"
proof -
  let ?m = "[(MachineConfigDaemonStateAnnotationKey, MachineConfigDaemonStateWorking)]"
  let ?x = "\<lparr>gets = [Inr 0, Inr 1],
             replies = [Some (StatusConflict ''object has been modified''), None],
             received = []\<rparr> :: (NodeValue \<times> NodeValue) script"
  let ?W = "\<lparr>mem = heap_two, ext = (?x, [])\<rparr>"
  let ?fn = "updateNodeRetry_func symbolic_libs (logged_client script_client)
          (logged_lister script_lister) ''node-1'' (setNodeAnnotations_func ?m)"
  have "\<exists>r w' oldNode newNode.
          updateNodeRetry symbolic_libs (logged_client script_client)
            (logged_lister script_lister) ''node-1'' (setNodeAnnotations_func ?m) ?W =
            Returned (r, w') \<and>
          map is_Get (snd (ext w')) = [True, False, True, False] \<and>
          last (snd (ext w')) = Patch ''node-1'' (oldNode, newNode) \<and>
          vResourceVersion oldNode = ''8''"
    by (simp add: logged_lister_def logged_client_def heap_two_def concrete_run)
  then obtain r w' oldNode newNode where
    1: "updateNodeRetry symbolic_libs (logged_client script_client)
            (logged_lister script_lister) ''node-1'' (setNodeAnnotations_func ?m) ?W =
            Returned (r, w')"
       "map is_Get (snd (ext w')) = [True, False, True, False]"
       "last (snd (ext w')) = Patch ''node-1'' (oldNode, newNode)"
       "vResourceVersion oldNode = ''8''"
    by (elim exE conjE)
  have "\<exists>e node wk. conflicts (Suc 0) ?fn None (None, ?W) = Some (e, node, wk)"
    by (simp add: logged_lister_def logged_client_def heap_two_def concrete_run)
  then obtain e node wk where 2: "conflicts (Suc 0) ?fn None (None, ?W) = Some (e, node, wk)"
    by (elim exE)
  note t = updateNodeRetry_recomputes_every_attempt [OF setNodeAnnotations_func_mutates_as,
      of symbolic_libs script_client script_lister "''node-1''" ?m heap_two ?x]
  from t [of r w', THEN conjunct1] 1(1)
  have 3: "recomputed symbolic_libs (annotate ?m) ''node-1'' (snd (ext w'))"
    by blast
  from t [of _ _ "Suc 0" e node wk, THEN conjunct2, THEN conjunct1] 2
  have 4: "recomputed symbolic_libs (annotate ?m) ''node-1'' (snd (ext wk))"
    "length (filter is_Get (snd (ext wk))) = Suc 0"
    by blast+
  from 1 2 3 4 show ?thesis
    by (intro exI conjI)
qed

section \<open>The nil annotation map\<close>

lemma send_and_receive_dies:
  assumes "writer s = []"
    and "setNodeAnnotations L client lister node annos (world s) = Panicked p"
  shows "send_and_receive L (case_writer # sched) client lister node annos s = Died p"
  using assms
  by (simp add: send_and_receive_def make_chan_def writer_send_def defaultWriterQueue_def)

text \<open>
  Claim C10. The mutation of \<^verbatim>\<open>setNodeAnnotations\<close> assigns into the annotation map
  of the node without creating it. When the object the lister hands out has a nil annotation
  map, then for every \<open>m\<close> with an entry the mutation panics on its first assignment, and
  so does \<^verbatim>\<open>setNodeAnnotations\<close> on its first attempt (the copy of a nil map is nil);
  and each of the five \<^verbatim>\<open>Set\<close> operations, called for that node with nothing queued
  before it, ends in that panic as soon as the loop serves its request. A non-nil
  annotation map on the fetched object is a precondition that the operations do not state.
\<close>

theorem setNodeAnnotations_nil_map_panics:
  assumes "lister nodeName w = (Inr n, w1)"
    and "load (mem w1) n = Some nv" and "vAnnotations nv = None"
    and "json_Marshal L nv = Inr b" and "0 < DefaultBackoff_Steps L"
  shows "(m \<noteq> [] \<longrightarrow>
            setNodeAnnotations_func m n (mem w1) = Panicked NilMapAssignment \<and>
            setNodeAnnotations L client lister nodeName m w = Panicked NilMapAssignment) \<and>
         (writer s = [] \<and> world s = w \<longrightarrow>
            SetDone L (case_writer # sched) client lister nodeName dcAnnotation s =
              Died NilMapAssignment \<and>
            SetWorking L (case_writer # sched) client lister nodeName s =
              Died NilMapAssignment \<and>
            SetUnreconcilable L (case_writer # sched) cause client lister nodeName s =
              Died NilMapAssignment \<and>
            SetDegraded L (case_writer # sched) cause client lister nodeName s =
              Died NilMapAssignment \<and>
            SetSSHAccessed L (case_writer # sched) client lister nodeName s =
              Died NilMapAssignment)"
proof (intro conjI impI)
  have panics: "setNodeAnnotations_func m' n (mem w1) = Panicked NilMapAssignment \<and>
      setNodeAnnotations L client lister nodeName m' w = Panicked NilMapAssignment"
    if "m' \<noteq> []" for m'
    using that assms by (rule setNodeAnnotations_nil_map)
  {
    assume "m \<noteq> []"
    from panics [OF this]
    show "setNodeAnnotations_func m n (mem w1) = Panicked NilMapAssignment"
      and "setNodeAnnotations L client lister nodeName m w = Panicked NilMapAssignment"
      by simp_all
  }
  assume s: "writer s = [] \<and> world s = w"
  have dies: "send_and_receive L (case_writer # sched) client lister nodeName m' s' =
      Died NilMapAssignment"
    if "m' \<noteq> []" and "writer s' = []" and "world s' = w" for m' s'
    using that panics [of m'] by (intro send_and_receive_dies) simp_all
  show "SetDone L (case_writer # sched) client lister nodeName dcAnnotation s =
      Died NilMapAssignment"
    using s by (simp add: SetDone_def dies)
  show "SetWorking L (case_writer # sched) client lister nodeName s = Died NilMapAssignment"
    using s by (simp add: SetWorking_def dies)
  show "SetUnreconcilable L (case_writer # sched) cause client lister nodeName s =
      Died NilMapAssignment"
    using s by (simp add: SetUnreconcilable_def dies)
  show "SetDegraded L (case_writer # sched) cause client lister nodeName s =
      Died NilMapAssignment"
    using s by (simp add: SetDegraded_def dies)
  show "SetSSHAccessed L (case_writer # sched) client lister nodeName s = Died NilMapAssignment"
    using s by (simp add: SetSSHAccessed_def dies)
qed

text \<open>
  The theorem at node-1 with a nil annotation map: the mutation of \<^verbatim>\<open>SetWorking\<close>
  panics, and so do \<^verbatim>\<open>setNodeAnnotations\<close> and, in an idle process whose loop takes
  one step, \<^verbatim>\<open>SetWorking\<close> and \<^verbatim>\<open>SetDone\<close>.
\<close>

theorem setNodeAnnotations_nil_map_panics_witness:
  "script_lister ''node-1'' (scripted heap_nil [Inr 0] []) = (Inr 0, scripted heap_nil [] []) \<and>
   map_option vAnnotations (load heap_nil 0) = Some None \<and>
   setNodeAnnotations_func
     [(MachineConfigDaemonStateAnnotationKey, MachineConfigDaemonStateWorking)] 0 heap_nil =
     Panicked NilMapAssignment \<and>
   setNodeAnnotations symbolic_libs script_client script_lister ''node-1''
     [(MachineConfigDaemonStateAnnotationKey, MachineConfigDaemonStateWorking)]
     (scripted heap_nil [Inr 0] []) = Panicked NilMapAssignment \<and>
   SetWorking symbolic_libs [case_writer] script_client script_lister ''node-1''
     (idle (scripted heap_nil [Inr 0] [])) = Died NilMapAssignment \<and>
   SetDone symbolic_libs [case_writer] script_client script_lister ''node-1''
     ''rendered-worker-2'' (idle (scripted heap_nil [Inr 0] [])) = Died NilMapAssignment"
proof -
  let ?nv = "\<lparr>vName = ''node-1'', vResourceVersion = ''7'', vAnnotations = None\<rparr>"
  let ?w = "scripted heap_nil [Inr 0] [] :: (NodeValue \<times> NodeValue) script world"
  let ?s = "idle ?w :: (NodeValue \<times> NodeValue, (NodeValue \<times> NodeValue) script) process"
  have 1: "script_lister ''node-1'' ?w = (Inr 0, scripted heap_nil [] [])"
    by (simp add: script_lister_def scripted_def)
  have 2: "load (mem (scripted heap_nil [] [] :: (NodeValue \<times> NodeValue) script world)) 0 = Some ?nv"
    by (simp add: load_def scripted_def heap_nil_def)
  have 3: "vAnnotations ?nv = None" "json_Marshal symbolic_libs ?nv = Inr ?nv"
    "0 < DefaultBackoff_Steps symbolic_libs"
    by (simp_all add: symbolic_libs_def)
  have 4: "writer ?s = [] \<and> world ?s = ?w"
    by (simp add: idle_def)
  note t = setNodeAnnotations_nil_map_panics [where lister = script_lister
      and nodeName = "''node-1''" and w = ?w and n = 0 and ?w1.0 = "scripted heap_nil [] []"
      and nv = ?nv and L = symbolic_libs and b = ?nv and client = script_client and s = ?s
      and sched = "[]" and dcAnnotation = "''rendered-worker-2''", OF 1 2 3]
  have "setNodeAnnotations_func
     [(MachineConfigDaemonStateAnnotationKey, MachineConfigDaemonStateWorking)] 0 heap_nil =
     Panicked NilMapAssignment \<and>
   setNodeAnnotations symbolic_libs script_client script_lister ''node-1''
     [(MachineConfigDaemonStateAnnotationKey, MachineConfigDaemonStateWorking)] ?w =
     Panicked NilMapAssignment"
    using t [THEN conjunct1, of
        "[(MachineConfigDaemonStateAnnotationKey, MachineConfigDaemonStateWorking)]"]
    by (simp add: scripted_def)
  moreover
  have "SetWorking symbolic_libs [case_writer] script_client script_lister ''node-1'' ?s =
          Died NilMapAssignment"
    "SetDone symbolic_libs [case_writer] script_client script_lister ''node-1''
       ''rendered-worker-2'' ?s = Died NilMapAssignment"
    using t [THEN conjunct2, rule_format, OF 4]
    by simp_all
  moreover
  have "script_lister ''node-1'' (scripted heap_nil [Inr 0] []) =
          (Inr 0, scripted heap_nil [] [])"
    "map_option vAnnotations (load heap_nil 0) = Some None"
    by (simp_all add: script_lister_def scripted_def load_def heap_nil_def)
  ultimately show ?thesis by simp
qed

end
